theory Spec2Isabelle
  imports Complex_Main "HOL-Library.Word"
begin

section \<open>Numbers, errors and geometric values\<close>

text \<open>
  A JavaScript number is either \<open>NaN\<close> or a value; the values are taken as real numbers, so
  the rounding of IEEE doubles and the two infinities are abstracted away. What is kept is
  everything the provider's control flow reads from a number: arithmetic propagates \<open>NaN\<close>,
  every comparison with \<open>NaN\<close> is false, and \<open>x === x\<close> fails exactly for \<open>NaN\<close>.
\<close>

datatype jsnum = NaN | Num real

fun js_add :: "jsnum \<Rightarrow> jsnum \<Rightarrow> jsnum" where
  "js_add (Num a) (Num b) = Num (a + b)"
| "js_add _ _ = NaN"

fun js_sub :: "jsnum \<Rightarrow> jsnum \<Rightarrow> jsnum" where
  "js_sub (Num a) (Num b) = Num (a - b)"
| "js_sub _ _ = NaN"

fun js_mul :: "jsnum \<Rightarrow> jsnum \<Rightarrow> jsnum" where
  "js_mul (Num a) (Num b) = Num (a * b)"
| "js_mul _ _ = NaN"

fun js_abs :: "jsnum \<Rightarrow> jsnum" where
  "js_abs (Num a) = Num \<bar>a\<bar>"
| "js_abs NaN = NaN"

fun js_gt :: "jsnum \<Rightarrow> jsnum \<Rightarrow> bool" where
  "js_gt (Num a) (Num b) = (a > b)"
| "js_gt _ _ = False"

fun js_ge :: "jsnum \<Rightarrow> jsnum \<Rightarrow> bool" where
  "js_ge (Num a) (Num b) = (a \<ge> b)"
| "js_ge _ _ = False"

fun js_le :: "jsnum \<Rightarrow> jsnum \<Rightarrow> bool" where
  "js_le (Num a) (Num b) = (a \<le> b)"
| "js_le _ _ = False"

fun js_eq :: "jsnum \<Rightarrow> jsnum \<Rightarrow> bool" where
  "js_eq (Num a) (Num b) = (a = b)"
| "js_eq _ _ = False"

text \<open>\<open>++x\<close> and \<open>x += n\<close> on a property that may be missing: \<open>undefined\<close> becomes \<open>NaN\<close>.\<close>

fun js_plus_assign :: "jsnum option \<Rightarrow> jsnum \<Rightarrow> jsnum option" where
  "js_plus_assign None n = Some NaN"
| "js_plus_assign (Some v) n = Some (js_add v n)"

datatype js_error = RangeError | TypeError | DeveloperError

type_synonym Cartesian3 = "jsnum \<times> jsnum \<times> jsnum"
type_synonym Cartesian4 = "jsnum \<times> jsnum \<times> jsnum \<times> jsnum"

text \<open>
  Modelled from the spec: \<open>Cartesian3.subtract\<close>, \<open>Cartesian3.normalize\<close> and
  \<open>Cartesian3.dot\<close> are not in src/. The spec's priority formula reads them as the
  componentwise difference, the scaling to unit length and the inner product. Normalising
  the zero vector divides 0 by 0 and yields \<open>NaN\<close> components.
\<close>

fun Cartesian3_subtract :: "Cartesian3 \<Rightarrow> Cartesian3 \<Rightarrow> Cartesian3" where
  "Cartesian3_subtract (lx, ly, lz) (rx, ry, rz) = (js_sub lx rx, js_sub ly ry, js_sub lz rz)"

fun Cartesian3_normalize :: "Cartesian3 \<Rightarrow> Cartesian3" where
  "Cartesian3_normalize (Num a, Num b, Num c) =
     (let magnitude = sqrt (a * a + b * b + c * c)
      in if magnitude = 0 then (NaN, NaN, NaN)
         else (Num (a / magnitude), Num (b / magnitude), Num (c / magnitude)))"
| "Cartesian3_normalize _ = (NaN, NaN, NaN)"

fun Cartesian3_dot :: "Cartesian3 \<Rightarrow> Cartesian3 \<Rightarrow> jsnum" where
  "Cartesian3_dot (lx, ly, lz) (rx, ry, rz) = js_add (js_add (js_mul lx rx) (js_mul ly ry)) (js_mul lz rz)"

record Rectangle =
  west :: jsnum
  south :: jsnum
  east :: jsnum
  north :: jsnum

record BoundingSphere =
  sphere_center :: Cartesian3
  sphere_radius :: jsnum

record OrientedBoundingBox =
  obb_center :: Cartesian3
  obb_halfAxes :: "jsnum list"

datatype BoundingVolume = Box OrientedBoundingBox | Sphere BoundingSphere

datatype SceneMode = MORPHING | COLUMBUS_VIEW | SCENE2D | SCENE3D

text \<open>
  \<open>Intersect\<close> and \<open>Visibility\<close> are enumerations declared outside src/. The provider
  returns an \<open>Intersect\<close> where a \<open>Visibility\<close> is expected; the two enumerations share
  their numeric values (-1, 0, 1), which \<open>asVisibility\<close> records.
\<close>

datatype Intersect = OUTSIDE | INTERSECTING | INSIDE

datatype Visibility = NONE | PARTIAL | FULL

fun asVisibility :: "Intersect \<Rightarrow> Visibility" where
  "asVisibility OUTSIDE = NONE"
| "asVisibility INTERSECTING = PARTIAL"
| "asVisibility INSIDE = FULL"

section \<open>Tiles\<close>

text \<open>
  Tiles are objects that refer to one another (\<open>parent\<close>, \<open>renderableTile\<close>,
  \<open>boundingVolumeSourceTile\<close>), and one call can write to two of them, so tiles live in a
  store: a reference is a number and the store maps every reference to the tile's fields.
\<close>

type_synonym tile_ref = nat
type_synonym texture = nat

record TerrainMesh =
  mesh_minimumHeight :: "jsnum option"
  mesh_maximumHeight :: "jsnum option"
  mesh_boundingSphere3D :: BoundingSphere

record TerrainData =
  data_minimumHeight :: "jsnum option"
  data_maximumHeight :: "jsnum option"

record TileBoundingRegion =
  region_rectangle :: Rectangle
  minimumHeight :: jsnum
  maximumHeight :: jsnum

record ImageryLayer =
  alpha :: jsnum

record Imagery =
  imageryLayer :: ImageryLayer
  imagery_texture :: "texture option"
  textureWebMercator :: "texture option"

record TileImagery =
  readyImagery :: "Imagery option"
  useWebMercatorT :: bool

record GlobeSurfaceTile =
  mesh :: "TerrainMesh option"
  fillMesh :: "TerrainMesh option"
  vertexArray :: "nat option"
  terrainData :: "TerrainData option"
  bvh :: "(jsnum \<times> jsnum) option"
  tileBoundingRegion :: "TileBoundingRegion option"
  boundingVolumeSourceTile :: "tile_ref option"
  orientedBoundingBox :: "OrientedBoundingBox option"
  occludeePointInScaledSpace :: "Cartesian3 option"
  renderableTile :: "tile_ref option"
  imagery :: "TileImagery list"
  waterMaskTexture :: "texture option"

record QuadtreeTile =
  data :: "GlobeSurfaceTile option"
  parent :: "tile_ref option"
  rectangle :: Rectangle
  tile_distance :: jsnum
  isClipped :: bool

type_synonym heap = "tile_ref \<Rightarrow> QuadtreeTile"

text \<open>
  Modelled from the spec: the constructor \<open>GlobeSurfaceTile\<close> is not in src/. A fresh
  SurfaceTileState has none of its optional parts and no imagery entries.
\<close>

definition new_GlobeSurfaceTile :: GlobeSurfaceTile where
  "new_GlobeSurfaceTile =
     \<lparr>mesh = None, fillMesh = None, vertexArray = None, terrainData = None, bvh = None,
      tileBoundingRegion = None, boundingVolumeSourceTile = None, orientedBoundingBox = None,
      occludeePointInScaledSpace = None, renderableTile = None, imagery = [],
      waterMaskTexture = None\<rparr>"

section \<open>The frame, the provider and the collaborators outside src/\<close>

datatype DepthFunction = LESS | LESS_OR_EQUAL

datatype BlendingState = ALPHA_BLEND

record RenderState =
  cull_enabled :: bool
  depthTest_enabled :: bool
  depthTest_func :: DepthFunction
  blending :: "BlendingState option"

text \<open>
  A draw command with the fields the assembly decides per pass. The uniform map's
  \<open>initialColor\<close> and \<open>dayTextures\<close> are kept with the command that owns the map; the
  other uniforms and the shader flags are copied from the tile and the layers without
  influencing how many commands there are or what they carry here, and are left out.
\<close>

record DrawCommand =
  owner :: tile_ref
  renderState :: "RenderState option"
  initialColor :: Cartesian4
  dayTextures :: "texture list"

record ClippingPlaneCollection =
  clipping_enabled :: bool
  computeIntersectionWithBoundingVolume :: "BoundingVolume option \<Rightarrow> Intersect"

record FrameState =
  fog_enabled :: bool
  fog_density :: jsnum
  mode :: SceneMode
  terrainExaggeration :: jsnum
  camera_positionCartographic_height :: jsnum
  camera_positionWC :: Cartesian3
  camera_directionWC :: Cartesian3
  camera_frustum_orthographic :: bool
  cullingVolume_computeVisibility :: "BoundingVolume option \<Rightarrow> Intersect"
  commandList :: "DrawCommand list"

datatype MissingTileStrategy = RENDER_ANCESTOR_SUBSET | CREATE_FILL_TILE | OTHER_STRATEGY

record GlobeSurfaceTileProvider =
  hasWaterMask :: bool
  oceanNormalMap :: "texture option"
  missingTileStrategy :: MissingTileStrategy
  provider_renderState :: "RenderState option"
  provider_blendRenderState :: "RenderState option"
  firstPassInitialColor :: Cartesian4
  clippingPlanes :: "ClippingPlaneCollection option"
  tilesToRenderByTextureCount :: "nat \<Rightarrow> tile_ref list option"
  drawCommands :: "DrawCommand list"
  usedDrawCommands :: nat
  debug_tilesRendered :: "jsnum option"
  debug_texturesRendered :: "jsnum option"

text \<open>
  Functions the provider calls that are defined outside src/ are parameters of the model,
  and a theorem holds for every choice of them unless its hypotheses fix one. \<open>getBvh\<close>
  is the surface tile's method of that name, \<open>distanceToCamera\<close> the bounding region's,
  \<open>computeOccludeePoint\<close> the horizon culling point that the provider's helper of that
  name obtains from the occluder, and \<open>maximumTextureImageUnits\<close> the device limit read
  from \<open>ContextLimits\<close>. \<open>createFillTile\<close> is defined in src/ but builds its mesh with
  geometry and buffer code from outside; it is a parameter too, as a change of the store,
  and its index generation is modelled on its own below.
\<close>

record Externals =
  CesiumMath_fog :: "jsnum \<Rightarrow> jsnum \<Rightarrow> jsnum"
  getBvh :: "heap \<Rightarrow> tile_ref \<Rightarrow> (jsnum \<times> jsnum) option"
  distanceToCamera :: "TileBoundingRegion \<Rightarrow> FrameState \<Rightarrow> jsnum"
  OrientedBoundingBox_fromRectangle :: "Rectangle \<Rightarrow> jsnum \<Rightarrow> jsnum \<Rightarrow> OrientedBoundingBox"
  computeOccludeePoint :: "Cartesian3 \<Rightarrow> Rectangle \<Rightarrow> jsnum \<Rightarrow> Cartesian3 option"
  BoundingSphere_fromRectangleWithHeights2D :: "Rectangle \<Rightarrow> jsnum \<Rightarrow> jsnum \<Rightarrow> BoundingSphere"
  BoundingSphere_union :: "BoundingSphere \<Rightarrow> BoundingSphere \<Rightarrow> BoundingSphere"
  createFillTile :: "heap \<Rightarrow> tile_ref \<Rightarrow> heap"
  maximumTextureImageUnits :: int

section \<open>Height resolution: updateTileBoundingRegion\<close>

text \<open>
  The three tests the function applies to a surface tile, each yielding the height pair it
  would store: \<open>mesh !== undefined && mesh.minimumHeight !== undefined &&
  mesh.maximumHeight !== undefined\<close>, the same for \<open>terrainData._minimumHeight\<close> and
  \<open>_maximumHeight\<close>, and \<open>bvh !== undefined && bvh[0] === bvh[0] && bvh[1] === bvh[1]\<close>.
\<close>

fun meshHeights :: "TerrainMesh option \<Rightarrow> (jsnum \<times> jsnum) option" where
  "meshHeights None = None"
| "meshHeights (Some m) =
     (case (mesh_minimumHeight m, mesh_maximumHeight m) of
        (Some lo, Some hi) \<Rightarrow> Some (lo, hi)
      | _ \<Rightarrow> None)"

fun terrainDataHeights :: "TerrainData option \<Rightarrow> jsnum \<Rightarrow> (jsnum \<times> jsnum) option" where
  "terrainDataHeights None exaggeration = None"
| "terrainDataHeights (Some d) exaggeration =
     (case (data_minimumHeight d, data_maximumHeight d) of
        (Some lo, Some hi) \<Rightarrow> Some (js_mul lo exaggeration, js_mul hi exaggeration)
      | _ \<Rightarrow> None)"

fun bvhHeights :: "(jsnum \<times> jsnum) option \<Rightarrow> jsnum \<Rightarrow> (jsnum \<times> jsnum) option" where
  "bvhHeights None exaggeration = None"
| "bvhHeights (Some (b0, b1)) exaggeration =
     (if js_eq b0 b0 \<and> js_eq b1 b1 then Some (js_mul b0 exaggeration, js_mul b1 exaggeration)
      else None)"

text \<open>Writing both heights of a tile's bounding region, through \<open>tile.data\<close>.\<close>

definition setHeights :: "heap \<Rightarrow> tile_ref \<Rightarrow> jsnum \<Rightarrow> jsnum \<Rightarrow> heap" where
  "setHeights h tile lo hi =
     h(tile := (h tile)\<lparr>data :=
        map_option (\<lambda>surfaceTile. surfaceTile\<lparr>tileBoundingRegion :=
           map_option (\<lambda>region. region\<lparr>minimumHeight := lo, maximumHeight := hi\<rparr>)
             (tileBoundingRegion surfaceTile)\<rparr>)
          (data (h tile))\<rparr>)"

text \<open>
  The walk over the ancestors. A store whose parent references run in a circle makes the
  source loop forever; the model then has no result (\<open>None\<close>). The loop variable comes
  first among the arguments.
\<close>

partial_function (option) ancestorLoop ::
  "tile_ref option \<Rightarrow> heap \<Rightarrow> tile_ref \<Rightarrow> FrameState \<Rightarrow> (heap \<times> tile_ref option) option" where
  "ancestorLoop ancestor h tile frameState =
     (case ancestor of
        None \<Rightarrow> Some (h, None)
      | Some a \<Rightarrow>
          (case data (h a) of
             None \<Rightarrow> ancestorLoop (parent (h a)) h tile frameState
           | Some ancestorSurfaceTile \<Rightarrow>
               (case meshHeights (mesh ancestorSurfaceTile) of
                  Some heights \<Rightarrow> Some (setHeights h tile (fst heights) (snd heights), Some a)
                | None \<Rightarrow>
                    (case terrainDataHeights (terrainData ancestorSurfaceTile) (terrainExaggeration frameState) of
                       Some heights \<Rightarrow> Some (setHeights h tile (fst heights) (snd heights), Some a)
                     | None \<Rightarrow>
                         (case bvhHeights (bvh ancestorSurfaceTile) (terrainExaggeration frameState) of
                            Some heights \<Rightarrow> Some (setHeights h tile (fst heights) (snd heights), Some a)
                          | None \<Rightarrow> ancestorLoop (parent (h a)) h tile frameState)))))"

text \<open>
  The first two statements of the function: a tile without surface data gets a fresh
  \<open>GlobeSurfaceTile\<close>, and a surface tile without a bounding region gets one with both
  heights 0.
\<close>

definition ensuredSurfaceTile :: "heap \<Rightarrow> tile_ref \<Rightarrow> GlobeSurfaceTile" where
  "ensuredSurfaceTile h tile =
     (let surfaceTile = (case data (h tile) of None \<Rightarrow> new_GlobeSurfaceTile | Some st \<Rightarrow> st)
      in case tileBoundingRegion surfaceTile of
           None \<Rightarrow> surfaceTile\<lparr>tileBoundingRegion :=
              Some \<lparr>region_rectangle = rectangle (h tile), minimumHeight = Num 0, maximumHeight = Num 0\<rparr>\<rparr>
         | Some region \<Rightarrow> surfaceTile)"

definition ensureBoundingRegion :: "heap \<Rightarrow> tile_ref \<Rightarrow> heap" where
  "ensureBoundingRegion h tile = h(tile := (h tile)\<lparr>data := Some (ensuredSurfaceTile h tile)\<rparr>)"

definition updateTileBoundingRegion ::
  "Externals \<Rightarrow> heap \<Rightarrow> tile_ref \<Rightarrow> FrameState \<Rightarrow> (heap \<times> tile_ref option) option" where
  "updateTileBoundingRegion ext h0 tile frameState =
     (let surfaceTile = ensuredSurfaceTile h0 tile;
          h = ensureBoundingRegion h0 tile
      in case meshHeights (mesh surfaceTile) of
           Some (lo, hi) \<Rightarrow> Some (setHeights h tile lo hi, Some tile)
         | None \<Rightarrow>
             (case terrainDataHeights (terrainData surfaceTile) (terrainExaggeration frameState) of
                Some (lo, hi) \<Rightarrow> Some (setHeights h tile lo hi, Some tile)
              | None \<Rightarrow>
                  (case bvhHeights (getBvh ext h tile) (terrainExaggeration frameState) of
                     Some (lo, hi) \<Rightarrow> Some (setHeights h tile lo hi, Some tile)
                   | None \<Rightarrow>
                       ancestorLoop (parent (h tile)) (setHeights h tile NaN NaN) tile frameState)))"

text \<open>A tile's bounding region, and the height pair it holds.\<close>

definition tileRegion :: "heap \<Rightarrow> tile_ref \<Rightarrow> TileBoundingRegion option" where
  "tileRegion h tile =
     (case data (h tile) of None \<Rightarrow> None | Some surfaceTile \<Rightarrow> tileBoundingRegion surfaceTile)"

definition regionHeights :: "heap \<Rightarrow> tile_ref \<Rightarrow> (jsnum \<times> jsnum) option" where
  "regionHeights h tile =
     map_option (\<lambda>region. (minimumHeight region, maximumHeight region)) (tileRegion h tile)"

text \<open>
  The specification of the resolution, in the spec's words: the first source that
  matches, in the order mesh, terrain data, height summary, for the tile and then for
  each ancestor in parent order. \<open>ancestorsOf h p as\<close> says that following \<open>parent\<close> from
  the reference \<open>p\<close> visits exactly the tiles \<open>as\<close> and then ends.
\<close>

primrec ancestorsOf :: "heap \<Rightarrow> tile_ref option \<Rightarrow> tile_ref list \<Rightarrow> bool" where
  "ancestorsOf h p [] = (p = None)"
| "ancestorsOf h p (a # as) = (p = Some a \<and> ancestorsOf h (parent (h a)) as)"

definition firstOf3 :: "'a option \<Rightarrow> 'a option \<Rightarrow> 'a option \<Rightarrow> 'a option" where
  "firstOf3 a b c = (case a of Some v \<Rightarrow> Some v | None \<Rightarrow> (case b of Some v \<Rightarrow> Some v | None \<Rightarrow> c))"

definition ownSource :: "Externals \<Rightarrow> heap \<Rightarrow> tile_ref \<Rightarrow> FrameState \<Rightarrow> (jsnum \<times> jsnum) option" where
  "ownSource ext h tile frameState =
     (let ownMesh = (case data (h tile) of None \<Rightarrow> None | Some surfaceTile \<Rightarrow> mesh surfaceTile);
          ownTerrainData = (case data (h tile) of None \<Rightarrow> None | Some surfaceTile \<Rightarrow> terrainData surfaceTile)
      in firstOf3 (meshHeights ownMesh)
           (terrainDataHeights ownTerrainData (terrainExaggeration frameState))
           (bvhHeights (getBvh ext (ensureBoundingRegion h tile) tile) (terrainExaggeration frameState)))"

definition ancestorSource :: "heap \<Rightarrow> FrameState \<Rightarrow> tile_ref \<Rightarrow> (jsnum \<times> jsnum) option" where
  "ancestorSource h frameState a =
     (case data (h a) of
        None \<Rightarrow> None
      | Some surfaceTile \<Rightarrow>
          firstOf3 (meshHeights (mesh surfaceTile))
            (terrainDataHeights (terrainData surfaceTile) (terrainExaggeration frameState))
            (bvhHeights (bvh surfaceTile) (terrainExaggeration frameState)))"

primrec firstSource :: "(tile_ref \<Rightarrow> (jsnum \<times> jsnum) option) \<Rightarrow> tile_ref list \<Rightarrow> (tile_ref \<times> jsnum \<times> jsnum) option" where
  "firstSource f [] = None"
| "firstSource f (a # as) = (case f a of Some (lo, hi) \<Rightarrow> Some (a, lo, hi) | None \<Rightarrow> firstSource f as)"

definition resolveHeightRange :: "Externals \<Rightarrow> heap \<Rightarrow> tile_ref \<Rightarrow> tile_ref list \<Rightarrow> FrameState \<Rightarrow> (tile_ref \<times> jsnum \<times> jsnum) option" where
  "resolveHeightRange ext h tile as frameState =
     (case ownSource ext h tile frameState of
        Some (lo, hi) \<Rightarrow> Some (tile, lo, hi)
      | None \<Rightarrow> firstSource (ancestorSource h frameState) as)"

text \<open>
  What a call leaves behind for a tile: the source it returned and the tile's height pair.
\<close>

definition heightsAfter ::
  "(heap \<times> tile_ref option) option \<Rightarrow> tile_ref \<Rightarrow> (tile_ref option \<times> (jsnum \<times> jsnum) option) option" where
  "heightsAfter outcome tile =
     (case outcome of
        None \<Rightarrow> None
      | Some (h, heightSource) \<Rightarrow> Some (heightSource, regionHeights h tile))"

text \<open>
  The height pairs a surface tile declares are ordered: the mesh's, the terrain data's,
  and a height summary \<open>b\<close> whenever neither of its entries is \<open>NaN\<close>.
\<close>

fun orderedOpt :: "jsnum option \<Rightarrow> jsnum option \<Rightarrow> bool" where
  "orderedOpt (Some lo) (Some hi) = js_le lo hi"
| "orderedOpt _ _ = True"

definition orderedHeights :: "GlobeSurfaceTile \<Rightarrow> (jsnum \<times> jsnum) option \<Rightarrow> bool" where
  "orderedHeights surfaceTile b =
     ((case mesh surfaceTile of
         None \<Rightarrow> True
       | Some m \<Rightarrow> orderedOpt (mesh_minimumHeight m) (mesh_maximumHeight m)) \<and>
      (case terrainData surfaceTile of
         None \<Rightarrow> True
       | Some d \<Rightarrow> orderedOpt (data_minimumHeight d) (data_maximumHeight d)) \<and>
      (case b of
         None \<Rightarrow> True
       | Some (b0, b1) \<Rightarrow> js_eq b0 b0 \<and> js_eq b1 b1 \<longrightarrow> js_le b0 b1))"

definition orderedAncestor :: "heap \<Rightarrow> tile_ref \<Rightarrow> bool" where
  "orderedAncestor h a =
     (case data (h a) of
        None \<Rightarrow> True
      | Some surfaceTile \<Rightarrow> orderedHeights surfaceTile (bvh surfaceTile))"

section \<open>Distance, visibility and load priority\<close>

text \<open>
  \<open>computeDistanceToTile\<close>. Reading a property of \<open>undefined\<close> is a \<open>TypeError\<close>; the
  branches for it are kept so that the theorems below show they are not taken.
\<close>

definition computeDistanceToTile ::
  "Externals \<Rightarrow> heap \<Rightarrow> tile_ref \<Rightarrow> FrameState \<Rightarrow> (js_error + heap \<times> jsnum) option" where
  "computeDistanceToTile ext h0 tile frameState =
     (case updateTileBoundingRegion ext h0 tile frameState of
        None \<Rightarrow> None
      | Some (h, heightSource) \<Rightarrow>
          Some (case data (h tile) of
             None \<Rightarrow> Inl TypeError
           | Some surfaceTile0 \<Rightarrow>
               (case heightSource of
                  None \<Rightarrow> Inr (h, Num 9999999999)
                | Some source \<Rightarrow>
                    (case tileBoundingRegion surfaceTile0 of
                       None \<Rightarrow> Inl TypeError
                     | Some tileBoundingRegion0 \<Rightarrow>
                         let surfaceTile =
                               (if boundingVolumeSourceTile surfaceTile0 \<noteq> Some source then
                                  let obb = OrientedBoundingBox_fromRectangle ext (rectangle (h tile))
                                              (minimumHeight tileBoundingRegion0) (maximumHeight tileBoundingRegion0)
                                  in surfaceTile0\<lparr>boundingVolumeSourceTile := Some source,
                                       orientedBoundingBox := Some obb,
                                       occludeePointInScaledSpace :=
                                         computeOccludeePoint ext (obb_center obb) (rectangle (h tile))
                                           (maximumHeight tileBoundingRegion0)\<rparr>
                                else surfaceTile0);
                             min = minimumHeight tileBoundingRegion0;
                             max = maximumHeight tileBoundingRegion0;
                             collapsed =
                               (if boundingVolumeSourceTile surfaceTile \<noteq> Some tile then
                                  let cameraHeight = camera_positionCartographic_height frameState;
                                      distanceToMin = js_abs (js_sub cameraHeight min);
                                      distanceToMax = js_abs (js_sub cameraHeight max)
                                  in if js_gt distanceToMin distanceToMax
                                     then tileBoundingRegion0\<lparr>minimumHeight := min, maximumHeight := min\<rparr>
                                     else tileBoundingRegion0\<lparr>minimumHeight := max, maximumHeight := max\<rparr>
                                else tileBoundingRegion0);
                             result = distanceToCamera ext collapsed frameState;
                             restored = collapsed\<lparr>minimumHeight := min, maximumHeight := max\<rparr>
                         in Inr (h(tile := (h tile)\<lparr>data :=
                                   Some (surfaceTile\<lparr>tileBoundingRegion := Some restored\<rparr>)\<rparr>),
                                 result)))))"

text \<open>
  The bounding volume \<open>computeTileVisibility\<close> tests: the oriented box in 3D, and in the
  other modes a sphere built from the rectangle and the region's heights, with its centre's
  components rotated and, while morphing, joined with the mesh's sphere.
\<close>

definition visibilityBoundingVolume ::
  "Externals \<Rightarrow> QuadtreeTile \<Rightarrow> GlobeSurfaceTile \<Rightarrow> FrameState \<Rightarrow> js_error + BoundingVolume option" where
  "visibilityBoundingVolume ext t surfaceTile frameState =
     (if mode frameState \<noteq> SCENE3D then
        (case tileBoundingRegion surfaceTile of
           None \<Rightarrow> Inl TypeError
         | Some region \<Rightarrow>
             let sphere = BoundingSphere_fromRectangleWithHeights2D ext (rectangle t)
                            (minimumHeight region) (maximumHeight region);
                 sphere = (case sphere_center sphere of
                             (cx, cy, cz) \<Rightarrow> sphere\<lparr>sphere_center := (cz, cx, cy)\<rparr>)
             in if mode frameState = MORPHING \<and> mesh surfaceTile \<noteq> None
                then (case mesh surfaceTile of
                        Some m \<Rightarrow> Inr (Some (Sphere (BoundingSphere_union ext (mesh_boundingSphere3D m) sphere)))
                      | None \<Rightarrow> Inr (Some (Sphere sphere)))
                else Inr (Some (Sphere sphere)))
      else Inr (map_option Box (orientedBoundingBox surfaceTile)))"

definition computeTileVisibility ::
  "Externals \<Rightarrow> GlobeSurfaceTileProvider \<Rightarrow> heap \<Rightarrow> tile_ref \<Rightarrow> FrameState \<Rightarrow>
   (Cartesian3 \<Rightarrow> bool) option \<Rightarrow> (js_error + heap \<times> Visibility) option" where
  "computeTileVisibility ext tileProvider h0 tile frameState occluders =
     (case computeDistanceToTile ext h0 tile frameState of
        None \<Rightarrow> None
      | Some (Inl e) \<Rightarrow> Some (Inl e)
      | Some (Inr (h1, distance)) \<Rightarrow>
          Some (let h = h1(tile := (h1 tile)\<lparr>tile_distance := distance\<rparr>)
           in if fog_enabled frameState \<and>
                 js_ge (CesiumMath_fog ext distance (fog_density frameState)) (Num 1)
              then Inr (h, NONE)
              else
                (case data (h tile) of
                   None \<Rightarrow> Inl TypeError
                 | Some surfaceTile \<Rightarrow>
                     if boundingVolumeSourceTile surfaceTile = None then Inr (h, PARTIAL)
                     else
                       (case visibilityBoundingVolume ext (h tile) surfaceTile frameState of
                          Inl e \<Rightarrow> Inl e
                        | Inr boundingVolume \<Rightarrow>
                            let clipping =
                                  (case clippingPlanes tileProvider of
                                     None \<Rightarrow> None
                                   | Some planes \<Rightarrow>
                                       if clipping_enabled planes
                                       then Some (computeIntersectionWithBoundingVolume planes boundingVolume)
                                       else None);
                                h = (case clipping of
                                       None \<Rightarrow> h
                                     | Some planeIntersection \<Rightarrow>
                                         h(tile := (h tile)\<lparr>isClipped := (planeIntersection \<noteq> INSIDE)\<rparr>))
                            in if clipping = Some OUTSIDE then Inr (h, NONE)
                               else
                                 let intersection = cullingVolume_computeVisibility frameState boundingVolume
                                 in if intersection = OUTSIDE then Inr (h, NONE)
                                    else
                                      let ortho3D = (mode frameState = SCENE3D \<and> camera_frustum_orthographic frameState)
                                      in (case occluders of
                                            Some isScaledSpacePointVisible \<Rightarrow>
                                              if mode frameState = SCENE3D \<and> \<not> ortho3D then
                                                (case occludeePointInScaledSpace surfaceTile of
                                                   None \<Rightarrow> Inr (h, asVisibility intersection)
                                                 | Some occludeePoint \<Rightarrow>
                                                     if isScaledSpacePointVisible occludeePoint
                                                     then Inr (h, asVisibility intersection)
                                                     else Inr (h, NONE))
                                              else Inr (h, asVisibility intersection)
                                          | None \<Rightarrow> Inr (h, asVisibility intersection))))))"

definition computeTileLoadPriority :: "heap \<Rightarrow> tile_ref \<Rightarrow> FrameState \<Rightarrow> jsnum" where
  "computeTileLoadPriority h tile frameState =
     (case data (h tile) of
        None \<Rightarrow> Num 0
      | Some surfaceTile \<Rightarrow>
          (case orientedBoundingBox surfaceTile of
             None \<Rightarrow> Num 0
           | Some obb \<Rightarrow>
               let cameraPosition = camera_positionWC frameState;
                   cameraDirection = camera_directionWC frameState;
                   tileDirection = Cartesian3_normalize (Cartesian3_subtract (obb_center obb) cameraPosition)
               in js_mul (js_sub (Num 1) (Cartesian3_dot tileDirection cameraDirection))
                         (tile_distance (h tile))))"

text \<open>
  Modelled from the spec: \<open>TileBoundingRegion.distanceToCamera\<close> is not in src/. The
  provider documents it as the distance from the camera to the closest point on the tile.
  The model measures that distance from a horizontal part, which depends on the rectangle
  and the camera only and is left open, and a vertical part: how far the camera's height
  is from the interval between the region's two heights.
\<close>

definition closestPointDistance ::
  "(Rectangle \<Rightarrow> FrameState \<Rightarrow> real) \<Rightarrow> TileBoundingRegion \<Rightarrow> FrameState \<Rightarrow> jsnum" where
  "closestPointDistance horizontal region frameState =
     (case (minimumHeight region, maximumHeight region, camera_positionCartographic_height frameState) of
        (Num lo, Num hi, Num cameraHeight) \<Rightarrow>
          let vertical = (if cameraHeight > hi then cameraHeight - hi
                          else if cameraHeight < lo then lo - cameraHeight else 0)
          in Num (sqrt ((horizontal (region_rectangle region) frameState)\<^sup>2 + vertical\<^sup>2))
      | _ \<Rightarrow> NaN)"


text \<open>The distance and the visibility a call returned, if it returned one.\<close>

definition distanceOf :: "(js_error + heap \<times> jsnum) option \<Rightarrow> jsnum option" where
  "distanceOf outcome =
     (case outcome of
        Some (Inr (h, distance)) \<Rightarrow> Some distance
      | _ \<Rightarrow> None)"

definition visibilityOf :: "(js_error + heap \<times> Visibility) option \<Rightarrow> Visibility option" where
  "visibilityOf outcome =
     (case outcome of
        Some (Inr (h, visibility)) \<Rightarrow> Some visibility
      | _ \<Rightarrow> None)"

text \<open>The cosine of the angle between two vectors, for the spec's priority formula.\<close>

definition cosAngle :: "real \<times> real \<times> real \<Rightarrow> real \<times> real \<times> real \<Rightarrow> real" where
  "cosAngle u v =
     (case (u, v) of
        ((a, b, c), (d, e, f)) \<Rightarrow>
          (a * d + b * e + c * f) / (sqrt (a * a + b * b + c * c) * sqrt (d * d + e * e + f * f)))"

section \<open>Showing a tile: showTileThisFrame\<close>

text \<open>
  An imagery entry counts as a ready texture when \<open>readyImagery\<close> is defined and its
  layer's alpha is not 0; \<open>showTileThisFrame\<close> counts these and the draw assembly packs them.
\<close>

definition counted :: "TileImagery \<Rightarrow> bool" where
  "counted tileImagery =
     (case readyImagery tileImagery of
        None \<Rightarrow> False
      | Some ready \<Rightarrow> \<not> js_eq (alpha (imageryLayer ready)) (Num 0))"

primrec countReadyTextures :: "TileImagery list \<Rightarrow> nat \<Rightarrow> nat" where
  "countReadyTextures [] readyTextureCount = readyTextureCount"
| "countReadyTextures (tileImagery # rest) readyTextureCount =
     countReadyTextures rest (if counted tileImagery then readyTextureCount + 1 else readyTextureCount)"

text \<open>
  The call also writes \<open>renderableTileSubset\<close> from the two rectangles; it only reaches a
  shader uniform when the tile is drawn as a part of the ancestor, and it is left out of
  the state.
\<close>

definition showTileThisFrame ::
  "GlobeSurfaceTileProvider \<Rightarrow> heap \<Rightarrow> tile_ref \<Rightarrow> tile_ref option \<Rightarrow>
   js_error + GlobeSurfaceTileProvider \<times> heap" where
  "showTileThisFrame tileProvider h tile nearestRenderableTile =
     (case data (h tile) of
        None \<Rightarrow> Inl TypeError
      | Some surfaceTile \<Rightarrow>
          let readyTextureCount = countReadyTextures (imagery surfaceTile) 0;
              tileSet = (case tilesToRenderByTextureCount tileProvider readyTextureCount of
                           None \<Rightarrow> []
                         | Some tiles \<Rightarrow> tiles);
              tileProvider = tileProvider\<lparr>tilesToRenderByTextureCount :=
                 (tilesToRenderByTextureCount tileProvider)(readyTextureCount \<mapsto> tileSet @ [tile])\<rparr>;
              tileProvider = tileProvider\<lparr>
                 debug_tilesRendered := js_plus_assign (debug_tilesRendered tileProvider) (Num 1),
                 debug_texturesRendered :=
                   js_plus_assign (debug_texturesRendered tileProvider) (Num (real readyTextureCount))\<rparr>
          in if nearestRenderableTile \<noteq> None \<and> nearestRenderableTile \<noteq> Some tile then
               (case nearestRenderableTile of
                  None \<Rightarrow> Inr (tileProvider, h)
                | Some nearest \<Rightarrow>
                    let h = h(tile := (h tile)\<lparr>data := Some (surfaceTile\<lparr>renderableTile := Some nearest\<rparr>)\<rparr>)
                    in (case data (h nearest) of
                          None \<Rightarrow> Inl TypeError
                        | Some nearestSurfaceTile \<Rightarrow>
                            Inr (tileProvider,
                                 h(nearest := (h nearest)\<lparr>data :=
                                     Some (nearestSurfaceTile\<lparr>renderableTile := None\<rparr>)\<rparr>))))
             else
               Inr (tileProvider,
                    h(tile := (h tile)\<lparr>data := Some (surfaceTile\<lparr>renderableTile := None\<rparr>)\<rparr>)))"

text \<open>A sequence of calls, each on the state the previous one left; an error ends it.\<close>

fun showTiles ::
  "GlobeSurfaceTileProvider \<Rightarrow> heap \<Rightarrow> (tile_ref \<times> tile_ref option) list \<Rightarrow>
   js_error + GlobeSurfaceTileProvider \<times> heap" where
  "showTiles tileProvider h [] = Inr (tileProvider, h)"
| "showTiles tileProvider h ((tile, nearestRenderableTile) # calls) =
     (case showTileThisFrame tileProvider h tile nearestRenderableTile of
        Inl e \<Rightarrow> Inl e
      | Inr (tileProvider', h') \<Rightarrow> showTiles tileProvider' h' calls)"

text \<open>The back-reference of a tile, and the back-references of a store as a relation.\<close>

definition renderableRef :: "heap \<Rightarrow> tile_ref \<Rightarrow> tile_ref option" where
  "renderableRef h tile =
     (case data (h tile) of None \<Rightarrow> None | Some surfaceTile \<Rightarrow> renderableTile surfaceTile)"

definition renderableRefs :: "heap \<Rightarrow> (tile_ref \<times> tile_ref) set" where
  "renderableRefs h = {(a, b). renderableRef h a = Some b}"

definition refsAfter ::
  "js_error + GlobeSurfaceTileProvider \<times> heap \<Rightarrow> tile_ref list \<Rightarrow> tile_ref option list option" where
  "refsAfter outcome tiles =
     (case outcome of
        Inl e \<Rightarrow> None
      | Inr (tileProvider, h) \<Rightarrow> Some (map (renderableRef h) tiles))"

section \<open>The fill mesh's triangle indices: createFillTile\<close>

text \<open>
  The index generation of \<open>createFillTile\<close>, as a function of \<open>vertexCount\<close>, the number
  of vertices in \<open>tileVertices\<close>: the boundary ring and then the centre vertex. The
  indices are a \<open>Uint16Array\<close>: every entry is stored modulo \<open>2^16\<close>, a write past the end
  changes nothing (which is what list update does too), and a negative length is a
  \<open>RangeError\<close>. The loop guard \<open>i < vertexCount - 2\<close> is written without subtraction.
\<close>

function fanLoop :: "nat \<Rightarrow> nat \<Rightarrow> 16 word list \<Rightarrow> nat \<Rightarrow> nat \<Rightarrow> 16 word list \<times> nat \<times> nat" where
  "fanLoop vertexCount centerIndex indices indexOut i =
     (if i + 2 < vertexCount then
        fanLoop vertexCount centerIndex
          (indices[indexOut := word_of_nat centerIndex,
                   indexOut + 1 := word_of_nat i,
                   indexOut + 2 := word_of_nat (i + 1)])
          (indexOut + 3) (i + 1)
      else (indices, indexOut, i))"
  by pat_completeness auto
termination
  by (relation "measure (\<lambda>(vertexCount, centerIndex, indices, indexOut, i). vertexCount - i)") auto

definition createFillTile_indices :: "nat \<Rightarrow> js_error + 16 word list" where
  "createFillTile_indices vertexCount =
     (if vertexCount = 0 then Inl RangeError
      else
        let indices = replicate ((vertexCount - 1) * 3) 0;
            centerIndex = vertexCount - 1;
            (indices, indexOut, i) = fanLoop vertexCount centerIndex indices 0 0
        in Inr (indices[indexOut := word_of_nat centerIndex,
                        indexOut + 1 := word_of_nat i,
                        indexOut + 2 := 0]))"

text \<open>
  The specification: the index list read three at a time, and the closed fan over a ring
  of \<open>vertexCount - 1\<close> boundary vertices around the centre vertex \<open>vertexCount - 1\<close>.
\<close>

fun triangles :: "'a list \<Rightarrow> ('a \<times> 'a \<times> 'a) list" where
  "triangles (a # b # c # rest) = (a, b, c) # triangles rest"
| "triangles _ = []"

definition closedFan :: "nat \<Rightarrow> (nat \<times> nat \<times> nat) list" where
  "closedFan vertexCount =
     map (\<lambda>i. (vertexCount - 1, i, (i + 1) mod (vertexCount - 1))) [0..<vertexCount - 1]"

section \<open>Draw commands: addDrawCommandsForTile\<close>

text \<open>The render states \<open>endUpdate\<close> creates when the provider has none yet.\<close>

definition endUpdate_renderStates :: "GlobeSurfaceTileProvider \<Rightarrow> GlobeSurfaceTileProvider" where
  "endUpdate_renderStates tileProvider =
     (if provider_renderState tileProvider = None then
        tileProvider\<lparr>
          provider_renderState :=
            Some \<lparr>cull_enabled = True, depthTest_enabled = True, depthTest_func = LESS, blending = None\<rparr>,
          provider_blendRenderState :=
            Some \<lparr>cull_enabled = True, depthTest_enabled = True, depthTest_func = LESS_OR_EQUAL,
                  blending = Some ALPHA_BLEND\<rparr>\<rparr>
      else tileProvider)"

definition otherPassesInitialColor :: Cartesian4 where
  "otherPassesInitialColor = (Num 0, Num 0, Num 0, Num 0)"

text \<open>The per-draw texture budget: the device limit, less one for each ocean feature shown.\<close>

definition effectiveMaxTextures :: "Externals \<Rightarrow> GlobeSurfaceTileProvider \<Rightarrow> GlobeSurfaceTile \<Rightarrow> int" where
  "effectiveMaxTextures ext tileProvider surfaceTile =
     (let maxTextures = maximumTextureImageUnits ext;
          showReflectiveOcean = (hasWaterMask tileProvider \<and> waterMaskTexture surfaceTile \<noteq> None);
          showOceanWaves = (showReflectiveOcean \<and> oceanNormalMap tileProvider \<noteq> None);
          maxTextures = (if showReflectiveOcean then maxTextures - 1 else maxTextures);
          maxTextures = (if showOceanWaves then maxTextures - 1 else maxTextures)
      in maxTextures)"

definition selectedTexture :: "TileImagery \<Rightarrow> Imagery \<Rightarrow> texture option" where
  "selectedTexture tileImagery ready =
     (if useWebMercatorT tileImagery then textureWebMercator ready else imagery_texture ready)"

text \<open>
  The inner loop, which fills one command's texture slots. \<open>imageryLen\<close> is the length of
  the collection, read once before the passes; the collection does not change during the
  assembly. The uniform map's \<open>dayTextures\<close> array is reused from the pool: slot
  \<open>numberOfDayTextures\<close> is written each time, and after the loop the array is cut to that
  length, so it ends as the list of textures of this pass, which the model builds.
\<close>

function dayTextureLoop ::
  "int \<Rightarrow> TileImagery list \<Rightarrow> texture list \<Rightarrow> nat \<Rightarrow> nat \<Rightarrow> js_error + texture list \<times> nat \<times> nat" where
  "dayTextureLoop maxTextures tileImageryCollection textures numberOfDayTextures imageryIndex =
     (if int numberOfDayTextures < maxTextures \<and> imageryIndex < length tileImageryCollection then
        let tileImagery = tileImageryCollection ! imageryIndex
        in (case readyImagery tileImagery of
              None \<Rightarrow>
                dayTextureLoop maxTextures tileImageryCollection textures numberOfDayTextures (imageryIndex + 1)
            | Some ready \<Rightarrow>
                if js_eq (alpha (imageryLayer ready)) (Num 0) then
                  dayTextureLoop maxTextures tileImageryCollection textures numberOfDayTextures (imageryIndex + 1)
                else
                  (case selectedTexture tileImagery ready of
                     None \<Rightarrow> Inl DeveloperError
                   | Some texture \<Rightarrow>
                       dayTextureLoop maxTextures tileImageryCollection (textures @ [texture])
                         (numberOfDayTextures + 1) (imageryIndex + 1)))
      else Inr (textures, numberOfDayTextures, imageryIndex))"
  by pat_completeness auto
termination
  by (relation "measure (\<lambda>(maxTextures, tileImageryCollection, textures, numberOfDayTextures, imageryIndex).
        length tileImageryCollection - imageryIndex)") auto

text \<open>
  One pass of the \<open>do ... while\<close> loop takes a command from the pool (a new one when the
  pool has none left), fills it and appends it to the frame's command list. With a budget
  of 0 or less and a non-empty collection the source loop never ends; the model then has
  no result. The pool holds each command object once and a command is not touched again
  after its pass, so commands are values here.

  Outside 3D mode the pass computes the command's bounding volume from the heights of the
  tile's bounding region, and reading them fails when the tile has no region. The volume
  itself is not a field of the command record; only the failure is modelled.
\<close>

definition claimCommand :: "GlobeSurfaceTileProvider \<Rightarrow> DrawCommand \<Rightarrow> GlobeSurfaceTileProvider" where
  "claimCommand tileProvider command =
     (let pool = drawCommands tileProvider;
          used = usedDrawCommands tileProvider;
          pool = (if length pool \<le> used then pool @ [command] else pool[used := command])
      in tileProvider\<lparr>drawCommands := pool, usedDrawCommands := used + 1\<rparr>)"

partial_function (option) commandLoop ::
  "nat \<Rightarrow> RenderState option \<Rightarrow> Cartesian4 \<Rightarrow> GlobeSurfaceTileProvider \<Rightarrow> FrameState \<Rightarrow>
   tile_ref \<Rightarrow> GlobeSurfaceTile \<Rightarrow> int \<Rightarrow> TileImagery list \<Rightarrow>
   (js_error + GlobeSurfaceTileProvider \<times> FrameState) option" where
  "commandLoop imageryIndex passRenderState passInitialColor tileProvider frameState tile surfaceTile
       maxTextures tileImageryCollection =
     (case dayTextureLoop maxTextures tileImageryCollection [] 0 imageryIndex of
        Inl e \<Rightarrow> Some (Inl e)
      | Inr packed \<Rightarrow>
          if mode frameState \<noteq> SCENE3D \<and> tileBoundingRegion surfaceTile = None then
            Some (Inl TypeError)
          else
            let command = \<lparr>owner = tile, renderState = passRenderState, initialColor = passInitialColor,
                           dayTextures = take (fst (snd packed)) (fst packed)\<rparr>;
                tileProvider = claimCommand tileProvider command;
                frameState = frameState\<lparr>commandList := commandList frameState @ [command]\<rparr>
            in if snd (snd packed) < length tileImageryCollection then
                 commandLoop (snd (snd packed)) (provider_blendRenderState tileProvider)
                   otherPassesInitialColor tileProvider frameState tile surfaceTile maxTextures
                   tileImageryCollection
               else Some (Inr (tileProvider, frameState)))"

text \<open>The mesh a tile is drawn with: its own when it has a vertex array, else its fill mesh.\<close>

definition drawnMesh :: "GlobeSurfaceTile \<Rightarrow> TerrainMesh option" where
  "drawnMesh surfaceTile =
     (if vertexArray surfaceTile \<noteq> None then mesh surfaceTile else fillMesh surfaceTile)"

text \<open>
  The whole function. A tile that defers to a renderable ancestor is drawn as a subset of
  that ancestor, or gets a fill mesh first, depending on the provider's strategy. Reading
  the centre of the mesh to draw fails when there is none. The \<open>subset\<close> argument only
  reaches a uniform and is not part of the model.
\<close>

partial_function (option) addDrawCommandsForTile ::
  "tile_ref \<Rightarrow> Externals \<Rightarrow> GlobeSurfaceTileProvider \<Rightarrow> heap \<Rightarrow> FrameState \<Rightarrow>
   (js_error + GlobeSurfaceTileProvider \<times> heap \<times> FrameState) option" where
  "addDrawCommandsForTile tile ext tileProvider h0 frameState =
     (case data (h0 tile) of
        None \<Rightarrow> Some (Inl TypeError)
      | Some surfaceTile0 \<Rightarrow>
          (case (if missingTileStrategy tileProvider = RENDER_ANCESTOR_SUBSET
                 then renderableTile surfaceTile0 else None) of
             Some ancestor \<Rightarrow> addDrawCommandsForTile ancestor ext tileProvider h0 frameState
           | None \<Rightarrow>
               let h = (if renderableTile surfaceTile0 \<noteq> None \<and>
                           missingTileStrategy tileProvider = CREATE_FILL_TILE
                        then createFillTile ext h0 tile else h0)
               in (case data (h tile) of
                     None \<Rightarrow> Some (Inl TypeError)
                   | Some surfaceTile \<Rightarrow>
                       (case drawnMesh surfaceTile of
                          None \<Rightarrow> Some (Inl TypeError)
                        | Some meshToDraw \<Rightarrow>
                            (case commandLoop 0 (provider_renderState tileProvider)
                                    (firstPassInitialColor tileProvider) tileProvider frameState tile
                                    surfaceTile (effectiveMaxTextures ext tileProvider surfaceTile)
                                    (imagery surfaceTile) of
                               None \<Rightarrow> None
                             | Some (Inl e) \<Rightarrow> Some (Inl e)
                             | Some (Inr (tileProvider', frameState')) \<Rightarrow>
                                 Some (Inr (tileProvider', h, frameState')))))))"

text \<open>
  The specification of what is drawn: the selected textures of the counted entries, in the
  order of the collection. \<open>packedTexture\<close> is the texture an entry contributes, if any.
\<close>

definition packedTexture :: "TileImagery \<Rightarrow> texture option" where
  "packedTexture tileImagery =
     (case readyImagery tileImagery of
        None \<Rightarrow> None
      | Some ready \<Rightarrow>
          if js_eq (alpha (imageryLayer ready)) (Num 0) then None
          else selectedTexture tileImagery ready)"

definition readyTextures :: "TileImagery list \<Rightarrow> texture list" where
  "readyTextures tileImageryCollection = List.map_filter packedTexture tileImageryCollection"

text \<open>
  From index \<open>i\<close> on, the collection has an entry that is counted as ready but has no
  texture in its selected form.
\<close>

definition missingAhead :: "TileImagery list \<Rightarrow> nat \<Rightarrow> bool" where
  "missingAhead tileImageryCollection i =
     (\<exists>tileImagery \<in> set (drop i tileImageryCollection).
        counted tileImagery \<and> packedTexture tileImagery = None)"

section \<open>A small store for the examples\<close>

text \<open>
  Tile 2 is a child of tile 3, which is a child of tile 4. Tiles 2 and 3 have no surface
  data yet; tile 4 has terrain data with heights from 10 to 20. Tile 6 has no mesh; its
  bounding box, centred at \<open>(0, 1, 0)\<close>, was built from heights of tile 4, and its last
  distance was 10. Every other tile is blank.
\<close>

definition blankTile :: QuadtreeTile where
  "blankTile =
     \<lparr>data = None, parent = None,
      rectangle = \<lparr>west = Num 0, south = Num 0, east = Num 1, north = Num 1\<rparr>,
      tile_distance = Num 0, isClipped = False\<rparr>"

definition exampleHeap :: heap where
  "exampleHeap =
     (\<lambda>tile. blankTile)
       (2 := blankTile\<lparr>parent := Some 3\<rparr>,
        3 := blankTile\<lparr>parent := Some 4\<rparr>,
        4 := blankTile\<lparr>data := Some (new_GlobeSurfaceTile\<lparr>terrainData :=
               Some \<lparr>data_minimumHeight = Some (Num 10), data_maximumHeight = Some (Num 20)\<rparr>\<rparr>)\<rparr>,
        6 := blankTile\<lparr>data := Some (new_GlobeSurfaceTile\<lparr>
                 boundingVolumeSourceTile := Some 4,
                 orientedBoundingBox := Some \<lparr>obb_center = (Num 0, Num 1, Num 0), obb_halfAxes = []\<rparr>\<rparr>),
               parent := Some 4, tile_distance := Num 10\<rparr>)"

definition exampleExternals :: Externals where
  "exampleExternals =
     \<lparr>CesiumMath_fog = (\<lambda>distance density. Num 0),
      getBvh = (\<lambda>h tile. None),
      distanceToCamera = closestPointDistance (\<lambda>rectangle frameState. 0),
      OrientedBoundingBox_fromRectangle =
        (\<lambda>rectangle lo hi. \<lparr>obb_center = (Num 0, Num 0, Num 0), obb_halfAxes = []\<rparr>),
      computeOccludeePoint = (\<lambda>center rectangle height. None),
      BoundingSphere_fromRectangleWithHeights2D =
        (\<lambda>rectangle lo hi. \<lparr>sphere_center = (Num 0, Num 0, Num 0), sphere_radius = Num 1\<rparr>),
      BoundingSphere_union = (\<lambda>left right. right),
      createFillTile = (\<lambda>h tile. h),
      maximumTextureImageUnits = 4\<rparr>"

definition exampleFrame :: FrameState where
  "exampleFrame =
     \<lparr>fog_enabled = False, fog_density = Num 1, mode = SCENE3D, terrainExaggeration = Num 2,
      camera_positionCartographic_height = Num 100,
      camera_positionWC = (Num 0, Num 0, Num 0),
      camera_directionWC = (Num 1, Num 0, Num 0),
      camera_frustum_orthographic = False,
      cullingVolume_computeVisibility = (\<lambda>boundingVolume. INSIDE),
      commandList = []\<rparr>"

text \<open>
  A provider as its constructor leaves it, with the default base colour, and the same
  provider once \<open>endUpdate\<close> has created its render states.
\<close>

definition freshProvider :: GlobeSurfaceTileProvider where
  "freshProvider =
     \<lparr>hasWaterMask = False, oceanNormalMap = None, missingTileStrategy = CREATE_FILL_TILE,
      provider_renderState = None, provider_blendRenderState = None,
      firstPassInitialColor = (Num 0, Num 0, Num (1 / 2), Num 1),
      clippingPlanes = None, tilesToRenderByTextureCount = (\<lambda>count. None),
      drawCommands = [], usedDrawCommands = 0,
      debug_tilesRendered = None, debug_texturesRendered = None\<rparr>"

definition exampleProvider :: GlobeSurfaceTileProvider where
  "exampleProvider = endUpdate_renderStates freshProvider"

text \<open>
  The same collaborators with a fog function that is at full opacity once distance times
  density reaches 7, as the double value of \<open>1 - exp(-(distance * density)^2)\<close> is, and
  that is 0 before.
\<close>

definition foggyExternals :: Externals where
  "foggyExternals =
     exampleExternals\<lparr>CesiumMath_fog :=
       (\<lambda>distance density. if js_ge (js_mul distance density) (Num 7) then Num 1 else Num 0)\<rparr>"

text \<open>A store in which every tile has surface data, with no imagery and no back-reference.\<close>

definition loadedHeap :: heap where
  "loadedHeap = (\<lambda>tile. blankTile\<lparr>data := Some new_GlobeSurfaceTile\<rparr>)"

text \<open>
  Imagery entries for the examples: one that is ready with a geographic texture and alpha
  1, one that is still loading, and one that is ready but has no texture. \<open>drawTile\<close> is
  a tile with a mesh, a vertex array and the given imagery entries.
\<close>

definition readyEntry :: "texture \<Rightarrow> TileImagery" where
  "readyEntry t =
     \<lparr>readyImagery = Some \<lparr>imageryLayer = \<lparr>alpha = Num 1\<rparr>, imagery_texture = Some t,
                             textureWebMercator = None\<rparr>,
      useWebMercatorT = False\<rparr>"

definition loadingEntry :: TileImagery where
  "loadingEntry = \<lparr>readyImagery = None, useWebMercatorT = False\<rparr>"

definition brokenEntry :: TileImagery where
  "brokenEntry =
     \<lparr>readyImagery = Some \<lparr>imageryLayer = \<lparr>alpha = Num 1\<rparr>, imagery_texture = None,
                             textureWebMercator = None\<rparr>,
      useWebMercatorT = False\<rparr>"

definition drawTile :: "TileImagery list \<Rightarrow> QuadtreeTile" where
  "drawTile entries =
     blankTile\<lparr>data := Some (new_GlobeSurfaceTile\<lparr>
       mesh := Some \<lparr>mesh_minimumHeight = Some (Num 0), mesh_maximumHeight = Some (Num 1),
                     mesh_boundingSphere3D = \<lparr>sphere_center = (Num 0, Num 0, Num 0), sphere_radius = Num 1\<rparr>\<rparr>,
       vertexArray := Some 0,
       imagery := entries\<rparr>)\<rparr>"

definition nineLayers :: "TileImagery list" where
  "nineLayers =
     [readyEntry 11, readyEntry 12, loadingEntry, readyEntry 13, readyEntry 14, readyEntry 15,
      readyEntry 16, readyEntry 17, readyEntry 18, readyEntry 19, loadingEntry]"

text \<open>The textures of the commands a call appended to an empty command list.\<close>

definition texturesDrawn ::
  "(js_error + GlobeSurfaceTileProvider \<times> heap \<times> FrameState) option \<Rightarrow> texture list list option" where
  "texturesDrawn outcome =
     (case outcome of
        Some (Inr (tileProvider, h, frameState)) \<Rightarrow> Some (map dayTextures (commandList frameState))
      | _ \<Rightarrow> None)"

section \<open>The fill mesh's triangle fan\<close>

declare fanLoop.simps [simp del]

lemma fanLoop_append:
  "length pre = 3 * i \<Longrightarrow> length rest = 3 * (n - 2 - i) \<Longrightarrow> i + 2 \<le> n \<Longrightarrow>
   fanLoop n c (pre @ rest @ tl3) (3 * i) i =
     (pre @ map word_of_nat (concat (map (\<lambda>j. [c, j, j + 1]) [i..<n - 2])) @ tl3, 3 * (n - 2), n - 2)"
proof (induction "n - 2 - i" arbitrary: i pre rest)
  case 0
  then have i: "i = n - 2" and n: "2 \<le> n" and rest: "rest = []" by simp_all
  have "\<not> i + 2 < n" using i n by simp
  then have "fanLoop n c (pre @ rest @ tl3) (3 * i) i = (pre @ rest @ tl3, 3 * i, i)"
    by (subst fanLoop.simps) (simp only: if_False)
  then show ?case using i rest by simp
next
  case (Suc k)
  then have lt: "i + 2 < n" by simp
  from Suc obtain a b d rest' where rest: "rest = a # b # d # rest'"
    by (cases rest; cases "tl rest"; cases "tl (tl rest)") auto
  let ?new = "[word_of_nat c, word_of_nat i, word_of_nat (i + 1)] :: 16 word list"
  have upd: "(pre @ rest @ tl3)[3 * i := word_of_nat c, 3 * i + 1 := word_of_nat i, 3 * i + 2 := word_of_nat (i + 1)]
     = (pre @ ?new) @ rest' @ tl3"
    using Suc.prems(1) by (simp add: rest list_update_append)
  have IH: "fanLoop n c ((pre @ ?new) @ rest' @ tl3) (3 * (i + 1)) (i + 1) =
        ((pre @ ?new) @ map word_of_nat (concat (map (\<lambda>j. [c, j, j + 1]) [i + 1..<n - 2])) @ tl3, 3 * (n - 2), n - 2)"
    apply (rule Suc.hyps(1))
    using Suc.hyps(2) Suc.prems rest by auto
  have "fanLoop n c (pre @ rest @ tl3) (3 * i) i = fanLoop n c ((pre @ ?new) @ rest' @ tl3) (3 * (i + 1)) (i + 1)"
    using lt upd by (subst fanLoop.simps) (simp add: algebra_simps)
  also note IH
  finally show ?case using lt by (simp add: upt_conv_Cons)
qed

lemma triangles_fan:
  "triangles (concat (map (\<lambda>j. [f j, g j, h j]) js) @ [a, b, c]) = map (\<lambda>j. (f j, g j, h j)) js @ [(a, b, c)]"
  by (induction js) auto

lemma createFillTile_indices_general:
  assumes "2 \<le> n"
  shows "createFillTile_indices n =
    Inr (map word_of_nat (concat (map (\<lambda>j. [n - 1, j, j + 1]) [0..<n - 2]) @ [n - 1, n - 2, 0]))"
proof -
  have rep: "replicate ((n - 1) * 3) (0::16 word) = [] @ replicate (3 * (n - 2 - 0)) 0 @ [0, 0, 0]"
  proof -
    have "(n - 1) * 3 = 3 * (n - 2) + 3" using assms by simp
    then have "replicate ((n - 1) * 3) (0::16 word) = replicate (3 * (n - 2)) 0 @ replicate 3 0"
      by (simp only: replicate_add)
    moreover have "replicate 3 (0::16 word) = [0, 0, 0]" by (simp add: numeral_3_eq_3)
    ultimately show ?thesis by simp
  qed
  have loop: "fanLoop n (n - 1) (replicate ((n - 1) * 3) 0) 0 0 =
     ([] @ map word_of_nat (concat (map (\<lambda>j. [n - 1, j, j + 1]) [0..<n - 2])) @ [0, 0, 0], 3 * (n - 2), n - 2)"
    unfolding rep using fanLoop_append [of "[]" 0 "replicate (3 * (n - 2 - 0)) 0" n "n - 1" "[0, 0, 0]"] assms
    by simp
  have len: "length (map word_of_nat (concat (map (\<lambda>j. [n - 1, j, j + 1]) [0..<n - 2])) :: 16 word list) = 3 * (n - 2)"
    by (simp add: length_concat comp_def sum_list_triv)
  let ?body = "map word_of_nat (concat (map (\<lambda>j. [n - 1, j, j + 1]) [0..<n - 2])) :: 16 word list"
  have fin: "(?body @ [0, 0, 0])[3 * (n - 2) := word_of_nat (n - 1), 3 * (n - 2) + 1 := word_of_nat (n - 2),
                3 * (n - 2) + 2 := 0] = ?body @ [word_of_nat (n - 1), word_of_nat (n - 2), 0]"
    using len by (simp add: list_update_append)
  have "createFillTile_indices n =
      Inr ((?body @ [0, 0, 0])[3 * (n - 2) := word_of_nat (n - 1), 3 * (n - 2) + 1 := word_of_nat (n - 2),
                3 * (n - 2) + 2 := 0])"
    unfolding createFillTile_indices_def Let_def loop using assms by simp
  then show ?thesis unfolding fin by simp
qed

lemma closedFan_unfold:
  assumes "2 \<le> n"
  shows "closedFan n = map (\<lambda>j. (n - 1, j, j + 1)) [0..<n - 2] @ [(n - 1, n - 2, 0)]"
proof -
  from assms obtain k where "n = 2 + k" by (auto simp: le_iff_add)
  then have m: "n = Suc (Suc k)" by simp
  have "map (\<lambda>i. (Suc k, i, Suc i mod Suc k)) [0..<k] = map (\<lambda>i. (Suc k, i, Suc i)) [0..<k]"
    by (rule map_cong) simp_all
  then show ?thesis by (simp add: closedFan_def m)
qed

lemma unat_small: "k < 65536 \<Longrightarrow> unat (word_of_nat k :: 16 word) = k"
  by (simp add: unat_of_nat)

lemma map_unat_word_of_nat:
  "\<forall>k \<in> set xs. k < 65536 \<Longrightarrow> map unat (map word_of_nat xs :: 16 word list) = xs"
  by (induction xs) (simp_all add: unat_small)

lemma unat_fan_entries:
  assumes "n \<le> 65536" "2 \<le> n"
  shows "map unat (map word_of_nat (concat (map (\<lambda>j. [n - 1, j, j + 1]) [0..<n - 2]) @ [n - 1, n - 2, 0]) :: 16 word list)
       = concat (map (\<lambda>j. [n - 1, j, j + 1]) [0..<n - 2]) @ [n - 1, n - 2, 0]"
proof (rule map_unat_word_of_nat, rule ballI)
  fix k assume "k \<in> set (concat (map (\<lambda>j. [n - 1, j, j + 1]) [0..<n - 2]) @ [n - 1, n - 2, 0])"
  then have "k \<le> n - 1" by (auto split: if_splits)
  then show "k < 65536" using assms by simp
qed

lemma createFillTile_first_triangle:
  assumes "3 \<le> n"
  shows "take 3 (projr (createFillTile_indices n)) = [word_of_nat (n - 1), 0, 1]"
proof -
  from assms obtain k where "n = 3 + k" by (auto simp: le_iff_add)
  then have n: "n = Suc (Suc (Suc k))" by simp
  have u: "[0..<n - 2] = 0 # [1..<Suc k]" by (simp add: n upt_conv_Cons)
  have "2 \<le> n" using assms by simp
  then have "createFillTile_indices n =
    Inr (map word_of_nat (concat (map (\<lambda>j. [n - 1, j, j + 1]) [0..<n - 2]) @ [n - 1, n - 2, 0]))"
    by (rule createFillTile_indices_general)
  then show ?thesis
    unfolding u by simp
qed

text \<open>
  C4 (as amended). For a fill mesh of \<open>vertexCount\<close> vertices (at least the centre vertex)
  the index list always has \<open>3 * (vertexCount - 1)\<close> entries, and as long as the vertex
  indices fit the 16-bit entries (\<open>vertexCount \<le> 65536\<close>) the triangles are the closed fan:
  triangle \<open>i\<close> is the centre vertex, boundary vertex \<open>i\<close> and boundary vertex \<open>i + 1\<close>,
  the last one returning to boundary vertex 0.
\<close>

theorem createFillTile_fan:
  "1 \<le> vertexCount \<Longrightarrow>
   \<exists>indices. createFillTile_indices vertexCount = Inr indices \<and>
      length indices = 3 * (vertexCount - 1) \<and>
      (vertexCount \<le> 65536 \<longrightarrow> triangles (map unat indices) = closedFan vertexCount)"
proof (cases "vertexCount = 1")
  case True
  have "fanLoop 1 0 [] 0 0 = ([], 0, 0)" by (subst fanLoop.simps) simp
  then show ?thesis using True by (simp add: createFillTile_indices_def closedFan_def)
next
  case False
  assume "1 \<le> vertexCount"
  with False have n: "2 \<le> vertexCount" by simp
  have len: "length (concat (map (\<lambda>j. [vertexCount - 1, j, j + 1]) [0..<vertexCount - 2])) = 3 * (vertexCount - 2)"
    by (simp add: length_concat comp_def sum_list_triv)
  have "3 * (vertexCount - 2) + 3 = 3 * (vertexCount - 1)" using n by simp
  with len have len': "length (map word_of_nat (concat (map (\<lambda>j. [vertexCount - 1, j, j + 1]) [0..<vertexCount - 2]) @
      [vertexCount - 1, vertexCount - 2, 0]) :: 16 word list) = 3 * (vertexCount - 1)"
    by simp
  have tri: "vertexCount \<le> 65536 \<Longrightarrow>
      triangles (map unat (map word_of_nat (concat (map (\<lambda>j. [vertexCount - 1, j, j + 1]) [0..<vertexCount - 2]) @
      [vertexCount - 1, vertexCount - 2, 0]) :: 16 word list)) = closedFan vertexCount"
    by (simp only: unat_fan_entries [OF _ n] triangles_fan closedFan_unfold [OF n])
  show ?thesis
    unfolding createFillTile_indices_general [OF n]
    using len' tri by blast
qed

text \<open>The fan of a mesh with five vertices.\<close>

theorem createFillTile_fan_witness:
  "(1::nat) \<le> 5 \<and> (\<exists>indices. createFillTile_indices 5 = Inr indices \<and>
      length indices = 3 * (5 - 1) \<and>
      ((5::nat) \<le> 65536 \<longrightarrow> triangles (map unat indices) = closedFan 5))"
  using createFillTile_fan [of 5] by simp

text \<open>
  With 65537 vertices the centre index 65536 is stored as 0: the first triangle is
  \<open>(0, 0, 1)\<close> and does not contain the centre vertex.
\<close>

theorem createFillTile_center_wraps:
  "take 3 (map unat (projr (createFillTile_indices 65537))) = [0, 0, 1]"
proof -
  have "take 3 (projr (createFillTile_indices 65537)) = [word_of_nat (65537 - 1), 0, 1]"
    by (rule createFillTile_first_triangle) simp
  then show ?thesis by (simp add: take_map)
qed

section \<open>Height resolution\<close>

lemma parent_setHeights [simp]: "parent (setHeights h tile lo hi a) = parent (h a)"
  by (simp add: setHeights_def)

lemma parent_ensureBoundingRegion [simp]: "parent (ensureBoundingRegion h tile a) = parent (h a)"
  by (simp add: ensureBoundingRegion_def)

lemma ancestorsOf_setHeights [simp]:
  "ancestorsOf (setHeights h tile lo hi) p as = ancestorsOf h p as"
  by (induction as arbitrary: p) simp_all

lemma ancestorsOf_ensureBoundingRegion [simp]:
  "ancestorsOf (ensureBoundingRegion h tile) p as = ancestorsOf h p as"
  by (induction as arbitrary: p) simp_all

lemma data_setHeights:
  "data (setHeights h tile lo hi a) =
     (if a = tile then
        map_option (\<lambda>surfaceTile. surfaceTile\<lparr>tileBoundingRegion :=
           map_option (\<lambda>region. region\<lparr>minimumHeight := lo, maximumHeight := hi\<rparr>)
             (tileBoundingRegion surfaceTile)\<rparr>) (data (h a))
      else data (h a))"
  by (simp add: setHeights_def)

lemma ancestorSource_setHeights [simp]:
  "ancestorSource (setHeights h tile lo hi) frameState = ancestorSource h frameState"
proof
  fix a
  show "ancestorSource (setHeights h tile lo hi) frameState a = ancestorSource h frameState a"
    by (cases "a = tile"; cases "data (h a)") (auto simp: ancestorSource_def data_setHeights)
qed

lemma firstOf3_None [simp]: "firstOf3 None None None = None"
  by (simp add: firstOf3_def)

lemma ancestorSource_ensureBoundingRegion [simp]:
  "ancestorSource (ensureBoundingRegion h tile) frameState = ancestorSource h frameState"
proof
  fix a
  show "ancestorSource (ensureBoundingRegion h tile) frameState a = ancestorSource h frameState a"
    by (cases "data (h a)")
       (auto simp: ancestorSource_def ensureBoundingRegion_def ensuredSurfaceTile_def
                   new_GlobeSurfaceTile_def Let_def split: option.splits)
qed

lemma setHeights_twice [simp]:
  "setHeights (setHeights h tile a b) tile lo hi = setHeights h tile lo hi"
proof -
  have "data (setHeights (setHeights h tile a b) tile lo hi tile) = data (setHeights h tile lo hi tile)"
    by (cases "data (h tile)"; cases "tileBoundingRegion (the (data (h tile)))")
       (simp_all add: setHeights_def)
  then show ?thesis
    by (auto simp: setHeights_def fun_eq_iff)
qed

lemma ancestorLoop_found:
  "ancestorSource h frameState a = Some (lo, hi) \<Longrightarrow>
   ancestorLoop (Some a) h tile frameState = Some (setHeights h tile lo hi, Some a)"
  by (subst ancestorLoop.simps)
     (auto simp: ancestorSource_def firstOf3_def split: option.splits)

lemma ancestorLoop_skip:
  "ancestorSource h frameState a = None \<Longrightarrow>
   ancestorLoop (Some a) h tile frameState = ancestorLoop (parent (h a)) h tile frameState"
  by (subst ancestorLoop.simps)
     (auto simp: ancestorSource_def firstOf3_def split: option.splits)

lemma ancestorLoop_chain:
  "ancestorsOf h p as \<Longrightarrow>
   ancestorLoop p h tile frameState =
     Some (case firstSource (ancestorSource h frameState) as of
             None \<Rightarrow> (h, None)
           | Some (a, lo, hi) \<Rightarrow> (setHeights h tile lo hi, Some a))"
proof (induction as arbitrary: p)
  case Nil
  then show ?case by (subst ancestorLoop.simps) simp
next
  case (Cons a as)
  then have p: "p = Some a" and rest: "ancestorsOf h (parent (h a)) as" by simp_all
  note IH = Cons.IH [OF rest]
  show ?case
  proof (cases "ancestorSource h frameState a")
    case None
    then show ?thesis unfolding p by (simp add: ancestorLoop_skip IH)
  next
    case (Some heights)
    then show ?thesis unfolding p by (cases heights) (simp add: ancestorLoop_found)
  qed
qed

lemma firstSource_member:
  "firstSource f as = Some (a, lo, hi) \<Longrightarrow> a \<in> set as \<and> f a = Some (lo, hi)"
  by (induction as) (auto split: option.splits)




lemma tileRegion_ensureBoundingRegion:
  "\<exists>region. tileRegion (ensureBoundingRegion h tile) tile = Some region"
  by (auto simp: tileRegion_def ensureBoundingRegion_def ensuredSurfaceTile_def Let_def
           split: option.splits)

lemma tileRegion_setHeights:
  "tileRegion (setHeights h tile lo hi) tile =
     map_option (\<lambda>region. region\<lparr>minimumHeight := lo, maximumHeight := hi\<rparr>) (tileRegion h tile)"
  by (cases "data (h tile)") (simp_all add: tileRegion_def setHeights_def)

lemma regionHeights_resolved:
  "regionHeights (setHeights (ensureBoundingRegion h tile) tile lo hi) tile = Some (lo, hi)"
  using tileRegion_ensureBoundingRegion [of h tile]
  by (auto simp: regionHeights_def tileRegion_setHeights)

lemma ownSource_ensured:
  "firstOf3 (meshHeights (mesh (ensuredSurfaceTile h tile)))
     (terrainDataHeights (terrainData (ensuredSurfaceTile h tile)) (terrainExaggeration frameState))
     (bvhHeights (getBvh ext (ensureBoundingRegion h tile) tile) (terrainExaggeration frameState))
   = ownSource ext h tile frameState"
  by (auto simp: ownSource_def ensuredSurfaceTile_def new_GlobeSurfaceTile_def Let_def
           split: option.splits)

text \<open>
  What the function computes, whenever the chain of ancestors is finite: the store with the
  heights of the first matching source (or two \<open>NaN\<close>s) written to the tile's region, and
  the tile of that source.
\<close>

lemma updateTileBoundingRegion_resolves:
  assumes "ancestorsOf h (parent (h tile)) as"
  shows "updateTileBoundingRegion ext h tile frameState =
     Some (case resolveHeightRange ext h tile as frameState of
             None \<Rightarrow> (setHeights (ensureBoundingRegion h tile) tile NaN NaN, None)
           | Some (source, lo, hi) \<Rightarrow> (setHeights (ensureBoundingRegion h tile) tile lo hi, Some source))"
proof (cases "ownSource ext h tile frameState")
  case (Some heights)
  obtain lo hi where heights: "heights = (lo, hi)" by (cases heights)
  from Some have "firstOf3 (meshHeights (mesh (ensuredSurfaceTile h tile)))
     (terrainDataHeights (terrainData (ensuredSurfaceTile h tile)) (terrainExaggeration frameState))
     (bvhHeights (getBvh ext (ensureBoundingRegion h tile) tile) (terrainExaggeration frameState))
     = Some (lo, hi)"
    by (simp add: ownSource_ensured heights)
  then have "updateTileBoundingRegion ext h tile frameState =
      Some (setHeights (ensureBoundingRegion h tile) tile lo hi, Some tile)"
    by (auto simp: updateTileBoundingRegion_def firstOf3_def Let_def split: option.splits)
  then show ?thesis by (simp add: resolveHeightRange_def Some heights)
next
  case None
  then have none: "firstOf3 (meshHeights (mesh (ensuredSurfaceTile h tile)))
     (terrainDataHeights (terrainData (ensuredSurfaceTile h tile)) (terrainExaggeration frameState))
     (bvhHeights (getBvh ext (ensureBoundingRegion h tile) tile) (terrainExaggeration frameState))
     = None"
    by (simp add: ownSource_ensured)
  have chain: "ancestorsOf (setHeights (ensureBoundingRegion h tile) tile NaN NaN)
      (parent (h tile)) as"
    using assms by simp
  have "updateTileBoundingRegion ext h tile frameState =
      ancestorLoop (parent (h tile))
        (setHeights (ensureBoundingRegion h tile) tile NaN NaN) tile frameState"
    using none by (auto simp: updateTileBoundingRegion_def firstOf3_def Let_def split: option.splits)
  then show ?thesis
    by (simp add: ancestorLoop_chain [OF chain] resolveHeightRange_def None split: option.splits)
qed


lemma exampleHeap_simps:
  "exampleHeap 2 = blankTile\<lparr>parent := Some 3\<rparr>"
  "exampleHeap 3 = blankTile\<lparr>parent := Some 4\<rparr>"
  "exampleHeap 4 = blankTile\<lparr>data := Some (new_GlobeSurfaceTile\<lparr>terrainData :=
               Some \<lparr>data_minimumHeight = Some (Num 10), data_maximumHeight = Some (Num 20)\<rparr>\<rparr>)\<rparr>"
  by (simp_all add: exampleHeap_def)

lemma example_chain: "ancestorsOf exampleHeap (parent (exampleHeap 2)) [3, 4]"
  by (simp add: exampleHeap_simps blankTile_def)

lemma example_resolve:
  "resolveHeightRange exampleExternals exampleHeap 2 [3, 4] exampleFrame = Some (4, Num 20, Num 40)"
  by (simp add: resolveHeightRange_def ownSource_def ancestorSource_def firstOf3_def blankTile_def
        exampleHeap_simps exampleExternals_def exampleFrame_def new_GlobeSurfaceTile_def)


lemma js_le_scaled:
  "js_le lo hi \<Longrightarrow> js_ge e (Num 0) \<Longrightarrow> js_le (js_mul lo e) (js_mul hi e)"
  by (cases lo; cases hi; cases e) (simp_all add: mult_right_mono)

lemma firstOf3_ordered:
  assumes "orderedHeights surfaceTile b" and "js_ge e (Num 0)"
    and "firstOf3 (meshHeights (mesh surfaceTile)) (terrainDataHeights (terrainData surfaceTile) e)
           (bvhHeights b e) = Some (lo, hi)"
  shows "js_le lo hi"
proof -
  have m: "meshHeights (mesh surfaceTile) = Some (lo, hi) \<Longrightarrow> js_le lo hi"
    using assms(1) by (auto simp: orderedHeights_def split: option.splits)
  have t: "terrainDataHeights (terrainData surfaceTile) e = Some (lo, hi) \<Longrightarrow> js_le lo hi"
    using assms(1,2) by (auto simp: orderedHeights_def js_le_scaled split: option.splits)
  have b: "bvhHeights b e = Some (lo, hi) \<Longrightarrow> js_le lo hi"
    using assms(1,2) by (cases b) (auto simp: orderedHeights_def js_le_scaled split: if_splits)
  from assms(3) m t b show ?thesis
    by (auto simp: firstOf3_def split: option.splits)
qed

lemma resolveHeightRange_ordered:
  assumes "js_ge (terrainExaggeration frameState) (Num 0)"
      and "orderedHeights (ensuredSurfaceTile h tile) (getBvh ext (ensureBoundingRegion h tile) tile)"
      and "\<forall>a \<in> set as. orderedAncestor h a"
      and "resolveHeightRange ext h tile as frameState = Some (source, lo, hi)"
  shows "js_le lo hi"
proof (cases "ownSource ext h tile frameState")
  case (Some heights)
  with assms(4) have "ownSource ext h tile frameState = Some (lo, hi)"
    by (auto simp: resolveHeightRange_def)
  then show ?thesis
    using firstOf3_ordered [OF assms(2,1)] by (simp add: ownSource_ensured)
next
  case None
  with assms(4) have "firstSource (ancestorSource h frameState) as = Some (source, lo, hi)"
    by (simp add: resolveHeightRange_def)
  then have mem: "source \<in> set as" and src: "ancestorSource h frameState source = Some (lo, hi)"
    by (auto dest: firstSource_member)
  from src obtain surfaceTile where st: "data (h source) = Some surfaceTile"
    by (auto simp: ancestorSource_def split: option.splits)
  from mem assms(3) st have "orderedHeights surfaceTile (bvh surfaceTile)"
    by (auto simp: orderedAncestor_def)
  from firstOf3_ordered [OF this assms(1)] src st show ?thesis
    by (simp add: ancestorSource_def)
qed

text \<open>
  C7 (as amended). When the resolution finds a source, the declared height pairs of the tile
  and of its ancestors are ordered and the terrain exaggeration is not negative, the
  tile's bounding region ends with \<open>minimumHeight \<le> maximumHeight\<close>. When it finds no
  source, both heights are \<open>NaN\<close>.
\<close>

theorem updateTileBoundingRegion_ordered:
  assumes "ancestorsOf h (parent (h tile)) as"
      and "js_ge (terrainExaggeration frameState) (Num 0)"
      and "orderedHeights (ensuredSurfaceTile h tile) (getBvh ext (ensureBoundingRegion h tile) tile)"
      and "\<forall>a \<in> set as. orderedAncestor h a"
  shows "\<exists>h' heightSource lo hi.
           updateTileBoundingRegion ext h tile frameState = Some (h', heightSource) \<and>
           regionHeights h' tile = Some (lo, hi) \<and>
           (case heightSource of
              Some source \<Rightarrow> js_le lo hi
            | None \<Rightarrow> lo = NaN \<and> hi = NaN)"
proof (cases "resolveHeightRange ext h tile as frameState")
  case None
  then show ?thesis
    by (simp add: updateTileBoundingRegion_resolves [OF assms(1)] regionHeights_resolved)
next
  case (Some found)
  obtain source lo hi where found: "found = (source, lo, hi)" by (cases found)
  have "js_le lo hi"
    using resolveHeightRange_ordered [OF assms(2,3,4)] Some found by simp
  then show ?thesis
    by (simp add: updateTileBoundingRegion_resolves [OF assms(1)] regionHeights_resolved Some found)
qed

text \<open>The example store satisfies the hypotheses for tile 2.\<close>

theorem updateTileBoundingRegion_ordered_witness:
  "\<exists>h' lo hi.
      updateTileBoundingRegion exampleExternals exampleHeap 2 exampleFrame = Some (h', Some 4) \<and>
      regionHeights h' 2 = Some (lo, hi) \<and> js_le lo hi"
proof -
  have 1: "js_ge (terrainExaggeration exampleFrame) (Num 0)"
    by (simp add: exampleFrame_def)
  have 2: "orderedHeights (ensuredSurfaceTile exampleHeap 2)
     (getBvh exampleExternals (ensureBoundingRegion exampleHeap 2) 2)"
    by (simp add: orderedHeights_def ensuredSurfaceTile_def exampleHeap_simps blankTile_def
          new_GlobeSurfaceTile_def exampleExternals_def)
  have 3: "\<forall>a \<in> set [3, 4]. orderedAncestor exampleHeap a"
    by (simp add: orderedAncestor_def orderedHeights_def exampleHeap_simps blankTile_def
          new_GlobeSurfaceTile_def)
  have 4: "updateTileBoundingRegion exampleExternals exampleHeap 2 exampleFrame =
     Some (setHeights (ensureBoundingRegion exampleHeap 2) 2 (Num 20) (Num 40), Some 4)"
    by (simp add: updateTileBoundingRegion_resolves [OF example_chain] example_resolve)
  from updateTileBoundingRegion_ordered [OF example_chain 1 2 3]
  show ?thesis
    unfolding 4 by auto
qed

text \<open>
  Tile 5 of the example store has no data and no parent: the resolution fails and leaves
  \<open>NaN\<close> in both heights, and \<open>NaN \<le> NaN\<close> is false.
\<close>

theorem updateTileBoundingRegion_unresolved_NaN:
  "heightsAfter (updateTileBoundingRegion exampleExternals exampleHeap 5 exampleFrame) 5 =
     Some (None, Some (NaN, NaN)) \<and> \<not> js_le NaN NaN"
proof -
  have "exampleHeap 5 = blankTile" by (simp add: exampleHeap_def)
  then have "ancestorsOf exampleHeap (parent (exampleHeap 5)) []"
    by (simp add: blankTile_def)
  from updateTileBoundingRegion_resolves [OF this, of exampleExternals exampleFrame]
  show ?thesis
    using \<open>exampleHeap 5 = blankTile\<close>
    by (simp add: heightsAfter_def resolveHeightRange_def ownSource_def firstOf3_def blankTile_def
          exampleExternals_def regionHeights_resolved)
qed

section \<open>Distance to a tile\<close>

lemma updateTileBoundingRegion_region:
  assumes "ancestorsOf h (parent (h tile)) as"
  shows "\<exists>h1 heightSource surfaceTile region.
           updateTileBoundingRegion ext h tile frameState = Some (h1, heightSource) \<and>
           data (h1 tile) = Some surfaceTile \<and> tileBoundingRegion surfaceTile = Some region"
proof -
  obtain region0 where r0: "tileRegion (ensureBoundingRegion h tile) tile = Some region0"
    using tileRegion_ensureBoundingRegion by blast
  have "\<exists>surfaceTile region. data (setHeights (ensureBoundingRegion h tile) tile lo hi tile) = Some surfaceTile \<and>
          tileBoundingRegion surfaceTile = Some region" for lo hi
    using r0 tileRegion_setHeights [of "ensureBoundingRegion h tile" tile lo hi]
    by (auto simp: tileRegion_def split: option.splits)
  then show ?thesis
    unfolding updateTileBoundingRegion_resolves [OF assms]
    by (auto split: option.splits)
qed

lemma computeDistanceToTile_unresolved:
  assumes "updateTileBoundingRegion ext h tile frameState = Some (h1, None)"
      and "data (h1 tile) = Some surfaceTile"
  shows "computeDistanceToTile ext h tile frameState = Some (Inr (h1, Num 9999999999))"
  using assms by (simp add: computeDistanceToTile_def)

lemma computeDistanceToTile_resolved:
  assumes "updateTileBoundingRegion ext h tile frameState = Some (h1, Some source)"
      and "data (h1 tile) = Some surfaceTile"
      and "tileBoundingRegion surfaceTile = Some region"
  shows "\<exists>surfaceTile'.
     computeDistanceToTile ext h tile frameState =
       Some (Inr (h1(tile := (h1 tile)\<lparr>data := Some (surfaceTile'\<lparr>tileBoundingRegion := Some region\<rparr>)\<rparr>),
                  distanceToCamera ext
                    (if source \<noteq> tile then
                       if js_gt (js_abs (js_sub (camera_positionCartographic_height frameState) (minimumHeight region)))
                                (js_abs (js_sub (camera_positionCartographic_height frameState) (maximumHeight region)))
                       then region\<lparr>minimumHeight := minimumHeight region, maximumHeight := minimumHeight region\<rparr>
                       else region\<lparr>minimumHeight := maximumHeight region, maximumHeight := maximumHeight region\<rparr>
                     else region) frameState)) \<and>
     boundingVolumeSourceTile surfaceTile' = Some source"
  using assms by (auto simp: computeDistanceToTile_def Let_def)

lemma regionHeights_data:
  "data (h tile) = Some surfaceTile \<Longrightarrow> tileBoundingRegion surfaceTile = Some region \<Longrightarrow>
   regionHeights h tile = Some (minimumHeight region, maximumHeight region)"
  by (simp add: regionHeights_def tileRegion_def)

text \<open>
  C10. Whenever the chain of ancestors is finite, \<open>computeDistanceToTile\<close> returns, and
  the two heights of the tile's bounding region are then the ones height resolution
  produced: the collapse of the range for the measurement is undone.
\<close>

theorem computeDistanceToTile_restores_heights:
  assumes "ancestorsOf h (parent (h tile)) as"
  shows "\<exists>h1 heightSource h2 distance.
           updateTileBoundingRegion ext h tile frameState = Some (h1, heightSource) \<and>
           computeDistanceToTile ext h tile frameState = Some (Inr (h2, distance)) \<and>
           regionHeights h1 tile \<noteq> None \<and>
           regionHeights h2 tile = regionHeights h1 tile"
proof -
  from updateTileBoundingRegion_region [OF assms]
  obtain h1 heightSource surfaceTile region where
    u: "updateTileBoundingRegion ext h tile frameState = Some (h1, heightSource)" and
    d: "data (h1 tile) = Some surfaceTile" and r: "tileBoundingRegion surfaceTile = Some region"
    by blast
  have rh: "regionHeights h1 tile = Some (minimumHeight region, maximumHeight region)"
    using d r by (rule regionHeights_data)
  show ?thesis
  proof (cases heightSource)
    case None
    with u d have "computeDistanceToTile ext h tile frameState = Some (Inr (h1, Num 9999999999))"
      by (simp add: computeDistanceToTile_unresolved)
    with u rh show ?thesis by simp
  next
    case (Some source)
    from computeDistanceToTile_resolved [OF u [unfolded Some] d r]
    obtain surfaceTile' distance where
      c: "computeDistanceToTile ext h tile frameState =
           Some (Inr (h1(tile := (h1 tile)\<lparr>data := Some (surfaceTile'\<lparr>tileBoundingRegion := Some region\<rparr>)\<rparr>),
                      distance))"
      by blast
    have "regionHeights (h1(tile := (h1 tile)\<lparr>data := Some (surfaceTile'\<lparr>tileBoundingRegion := Some region\<rparr>)\<rparr>)) tile
            = Some (minimumHeight region, maximumHeight region)"
      by (simp add: regionHeights_def tileRegion_def)
    with u c rh show ?thesis by simp
  qed
qed

text \<open>Tile 2 of the example store.\<close>

theorem computeDistanceToTile_restores_heights_witness:
  "ancestorsOf exampleHeap (parent (exampleHeap 2)) [3, 4] \<and>
   (\<exists>h1 heightSource h2 distance.
      updateTileBoundingRegion exampleExternals exampleHeap 2 exampleFrame = Some (h1, heightSource) \<and>
      computeDistanceToTile exampleExternals exampleHeap 2 exampleFrame = Some (Inr (h2, distance)) \<and>
      regionHeights h1 2 \<noteq> None \<and>
      regionHeights h2 2 = regionHeights h1 2)"
  using computeDistanceToTile_restores_heights [OF example_chain, of exampleExternals exampleFrame]
    example_chain
  by blast









section \<open>Visibility\<close>

lemma computeDistanceToTile_returns:
  assumes "ancestorsOf h (parent (h tile)) as"
  shows "\<exists>h1 distance. computeDistanceToTile ext h tile frameState = Some (Inr (h1, distance))"
proof -
  from updateTileBoundingRegion_region [OF assms]
  obtain h1 heightSource surfaceTile region where
    u: "updateTileBoundingRegion ext h tile frameState = Some (h1, heightSource)" and
    d: "data (h1 tile) = Some surfaceTile" and r: "tileBoundingRegion surfaceTile = Some region"
    by blast
  show ?thesis
  proof (cases heightSource)
    case None
    with u d show ?thesis by (simp add: computeDistanceToTile_unresolved)
  next
    case (Some source)
    from computeDistanceToTile_resolved [OF u [unfolded Some] d r] show ?thesis by blast
  qed
qed

text \<open>
  C3 (as amended). When fog is enabled and the fog opacity at the computed distance is at
  least 1, the tile is not visible, whatever the provider's clipping planes, the frame's
  culling volume and the occluders are. (The chain of ancestors has to be finite for the
  distance to be computed at all.)
\<close>

theorem computeTileVisibility_fog:
  assumes "ancestorsOf h (parent (h tile)) as"
  shows "\<exists>h1 distance.
           computeDistanceToTile ext h tile frameState = Some (Inr (h1, distance)) \<and>
           (fog_enabled frameState \<and>
            js_ge (CesiumMath_fog ext distance (fog_density frameState)) (Num 1) \<longrightarrow>
            computeTileVisibility ext tileProvider h tile frameState occluders =
              Some (Inr (h1(tile := (h1 tile)\<lparr>tile_distance := distance\<rparr>), NONE)))"
proof -
  from computeDistanceToTile_returns [OF assms]
  obtain h1 distance where
    "computeDistanceToTile ext h tile frameState = Some (Inr (h1, distance))" by blast
  then show ?thesis
    by (simp add: computeTileVisibility_def)
qed

lemma foggy_distance:
  "\<exists>h2 surfaceTile.
     computeDistanceToTile foggyExternals exampleHeap 2 (exampleFrame\<lparr>fog_enabled := enabled\<rparr>) =
       Some (Inr (h2, Num 80)) \<and>
     data (h2 2) = Some surfaceTile \<and> boundingVolumeSourceTile surfaceTile = Some 4 \<and>
     orientedBoundingBox surfaceTile \<noteq> None \<and> occludeePointInScaledSpace surfaceTile = None"
proof -
  have u: "updateTileBoundingRegion foggyExternals exampleHeap 2 (exampleFrame\<lparr>fog_enabled := enabled\<rparr>) =
      Some (setHeights (ensureBoundingRegion exampleHeap 2) 2 (Num 20) (Num 40), Some 4)"
  proof -
    have "resolveHeightRange foggyExternals exampleHeap 2 [3, 4] (exampleFrame\<lparr>fog_enabled := enabled\<rparr>)
            = Some (4, Num 20, Num 40)"
      by (simp add: resolveHeightRange_def ownSource_def ancestorSource_def firstOf3_def blankTile_def
            exampleHeap_simps foggyExternals_def exampleExternals_def exampleFrame_def
            new_GlobeSurfaceTile_def)
    then show ?thesis
      by (simp add: updateTileBoundingRegion_resolves [OF example_chain])
  qed
  have s: "sqrt 6400 = 80" by (rule real_sqrt_unique) simp_all
  have d: "data (setHeights (ensureBoundingRegion exampleHeap 2) 2 (Num 20) (Num 40) 2) =
     Some (new_GlobeSurfaceTile\<lparr>tileBoundingRegion :=
        Some \<lparr>region_rectangle = rectangle blankTile, minimumHeight = Num 20, maximumHeight = Num 40\<rparr>\<rparr>)"
    by (simp add: setHeights_def ensureBoundingRegion_def ensuredSurfaceTile_def
          exampleHeap_simps blankTile_def new_GlobeSurfaceTile_def)
  show ?thesis
    unfolding computeDistanceToTile_def u
    by (simp add: d new_GlobeSurfaceTile_def foggyExternals_def
          exampleExternals_def exampleFrame_def closestPointDistance_def Let_def s)
qed

text \<open>Tile 2 of the example store in a frame with fog, at distance 80.\<close>

theorem computeTileVisibility_fog_witness:
  "ancestorsOf exampleHeap (parent (exampleHeap 2)) [3, 4] \<and>
   fog_enabled (exampleFrame\<lparr>fog_enabled := True\<rparr>) \<and>
   (\<exists>h1. computeDistanceToTile foggyExternals exampleHeap 2 (exampleFrame\<lparr>fog_enabled := True\<rparr>) =
           Some (Inr (h1, Num 80)) \<and>
         js_ge (CesiumMath_fog foggyExternals (Num 80) (fog_density (exampleFrame\<lparr>fog_enabled := True\<rparr>)))
           (Num 1) \<and>
         computeTileVisibility foggyExternals exampleProvider exampleHeap 2
           (exampleFrame\<lparr>fog_enabled := True\<rparr>) None =
           Some (Inr (h1(2 := (h1 2)\<lparr>tile_distance := Num 80\<rparr>), NONE)))"
proof -
  from foggy_distance [of True] obtain h2 where
    d: "computeDistanceToTile foggyExternals exampleHeap 2 (exampleFrame\<lparr>fog_enabled := True\<rparr>) =
          Some (Inr (h2, Num 80))"
    by blast
  have f: "js_ge (CesiumMath_fog foggyExternals (Num 80) (fog_density (exampleFrame\<lparr>fog_enabled := True\<rparr>)))
           (Num 1)"
    by (simp add: foggyExternals_def exampleFrame_def)
  from computeTileVisibility_fog [OF example_chain, of foggyExternals "exampleFrame\<lparr>fog_enabled := True\<rparr>"
      exampleProvider None]
  show ?thesis
    using example_chain d f by simp
qed

text \<open>
  With fog switched off the test is not made: a tile resolved from its grandparent, at
  distance 80 where the fog function is at full opacity, inside the culling volume, is
  fully visible.
\<close>

theorem computeTileVisibility_fog_disabled:
  "\<not> fog_enabled exampleFrame \<and>
   distanceOf (computeDistanceToTile foggyExternals exampleHeap 2 exampleFrame) = Some (Num 80) \<and>
   js_ge (CesiumMath_fog foggyExternals (Num 80) (fog_density exampleFrame)) (Num 1) \<and>
   visibilityOf (computeTileVisibility foggyExternals exampleProvider exampleHeap 2 exampleFrame None) =
     Some FULL"
proof -
  have e: "exampleFrame\<lparr>fog_enabled := False\<rparr> = exampleFrame"
    by (simp add: exampleFrame_def)
  from foggy_distance [of False] obtain h2 surfaceTile where
    d: "computeDistanceToTile foggyExternals exampleHeap 2 exampleFrame = Some (Inr (h2, Num 80))" and
    s: "data (h2 2) = Some surfaceTile" "boundingVolumeSourceTile surfaceTile = Some 4"
       "occludeePointInScaledSpace surfaceTile = None"
    unfolding e by blast
  have v: "visibilityOf (computeTileVisibility foggyExternals exampleProvider exampleHeap 2 exampleFrame None) =
     Some FULL"
    using d s
    by (simp add: computeTileVisibility_def visibilityOf_def visibilityBoundingVolume_def
          exampleFrame_def exampleProvider_def freshProvider_def endUpdate_renderStates_def Let_def)
  show ?thesis
    using d v by (simp add: distanceOf_def foggyExternals_def exampleFrame_def)
qed

section \<open>Load priority\<close>

lemma sum_squares_zero:
  fixes a b c :: real
  shows "a * a + b * b + c * c = 0 \<longleftrightarrow> a = 0 \<and> b = 0 \<and> c = 0"
proof
  assume z: "a * a + b * b + c * c = 0"
  have "0 \<le> a * a" "0 \<le> b * b" "0 \<le> c * c" by simp_all
  with z have "a * a = 0" "b * b = 0" "c * c = 0" by linarith+
  then show "a = 0 \<and> b = 0 \<and> c = 0" by simp
qed simp

lemma normalized_dot:
  fixes a b c dx dy dz :: real
  assumes "(a, b, c) \<noteq> (0, 0, 0)" and "dx * dx + dy * dy + dz * dz = 1"
  shows "Cartesian3_dot (Cartesian3_normalize (Num a, Num b, Num c)) (Num dx, Num dy, Num dz) =
           Num (cosAngle (a, b, c) (dx, dy, dz))"
proof -
  have "a * a + b * b + c * c \<noteq> 0"
    using assms(1) by (simp add: sum_squares_zero)
  then have m: "sqrt (a * a + b * b + c * c) \<noteq> 0" by simp
  show ?thesis
    using m by (simp add: Let_def cosAngle_def assms(2) add_divide_distrib)
qed

text \<open>
  C8 (as amended). A tile without surface data or without an oriented bounding box scores
  exactly 0. Otherwise, with numeric coordinates, a camera direction of unit length and a
  box centre different from the camera position, the score is (1 - cos of the angle between
  the camera direction and the direction from the camera to the box centre) times the
  tile's distance.
\<close>

theorem computeTileLoadPriority_score:
  "(data (h tile) = None \<longrightarrow> computeTileLoadPriority h tile frameState = Num 0) \<and>
   (data (h tile) = Some surfaceTile \<and> orientedBoundingBox surfaceTile = None \<longrightarrow>
      computeTileLoadPriority h tile frameState = Num 0) \<and>
   (data (h tile) = Some surfaceTile \<and> orientedBoundingBox surfaceTile = Some obb \<and>
    obb_center obb = (Num cx, Num cy, Num cz) \<and>
    camera_positionWC frameState = (Num px, Num py, Num pz) \<and>
    camera_directionWC frameState = (Num dx, Num dy, Num dz) \<and>
    dx * dx + dy * dy + dz * dz = 1 \<and> (cx, cy, cz) \<noteq> (px, py, pz) \<and>
    tile_distance (h tile) = Num distance \<longrightarrow>
      computeTileLoadPriority h tile frameState =
        Num ((1 - cosAngle (cx - px, cy - py, cz - pz) (dx, dy, dz)) * distance))"
proof (intro conjI impI)
  assume "data (h tile) = None"
  then show "computeTileLoadPriority h tile frameState = Num 0"
    by (simp add: computeTileLoadPriority_def)
next
  assume "data (h tile) = Some surfaceTile \<and> orientedBoundingBox surfaceTile = None"
  then show "computeTileLoadPriority h tile frameState = Num 0"
    by (simp add: computeTileLoadPriority_def)
next
  assume a: "data (h tile) = Some surfaceTile \<and> orientedBoundingBox surfaceTile = Some obb \<and>
    obb_center obb = (Num cx, Num cy, Num cz) \<and>
    camera_positionWC frameState = (Num px, Num py, Num pz) \<and>
    camera_directionWC frameState = (Num dx, Num dy, Num dz) \<and>
    dx * dx + dy * dy + dz * dz = 1 \<and> (cx, cy, cz) \<noteq> (px, py, pz) \<and>
    tile_distance (h tile) = Num distance"
  then have nz: "(cx - px, cy - py, cz - pz) \<noteq> (0, 0, 0)" by auto
  from a have unit: "dx * dx + dy * dy + dz * dz = 1" by simp
  have "computeTileLoadPriority h tile frameState =
      js_mul (js_sub (Num 1)
        (Cartesian3_dot (Cartesian3_normalize (Num (cx - px), Num (cy - py), Num (cz - pz)))
           (Num dx, Num dy, Num dz))) (Num distance)"
    using a by (simp add: computeTileLoadPriority_def Let_def)
  then show "computeTileLoadPriority h tile frameState =
        Num ((1 - cosAngle (cx - px, cy - py, cz - pz) (dx, dy, dz)) * distance)"
    by (simp only: normalized_dot [OF nz unit] js_sub.simps js_mul.simps)
qed

lemma exampleHeap_6:
  "exampleHeap 6 = blankTile\<lparr>data := Some (new_GlobeSurfaceTile\<lparr>
                 boundingVolumeSourceTile := Some 4,
                 orientedBoundingBox := Some \<lparr>obb_center = (Num 0, Num 1, Num 0), obb_halfAxes = []\<rparr>\<rparr>),
               parent := Some 4, tile_distance := Num 10\<rparr>"
  by (simp add: exampleHeap_def)

text \<open>Tile 6 of the example store, with the camera at the origin looking along the first axis.\<close>

theorem computeTileLoadPriority_score_witness:
  "computeTileLoadPriority exampleHeap 6 exampleFrame =
     Num ((1 - cosAngle (0 - 0, 1 - 0, 0 - 0) (1, 0, 0)) * 10)"
  using computeTileLoadPriority_score [of exampleHeap 6 exampleFrame
      "new_GlobeSurfaceTile\<lparr>boundingVolumeSourceTile := Some 4,
         orientedBoundingBox := Some \<lparr>obb_center = (Num 0, Num 1, Num 0), obb_halfAxes = []\<rparr>\<rparr>"
      "\<lparr>obb_center = (Num 0, Num 1, Num 0), obb_halfAxes = []\<rparr>" 0 1 0 0 0 0 1 0 0 10]
  by (simp add: exampleHeap_6 exampleFrame_def blankTile_def)

text \<open>
  Tile 6 has no mesh, yet its score is 10: the function looks at the surface data and the
  bounding box, not at the mesh.
\<close>

theorem computeTileLoadPriority_without_mesh:
  "map_option mesh (data (exampleHeap 6)) = Some None \<and>
   computeTileLoadPriority exampleHeap 6 exampleFrame = Num 10"
  by (simp add: computeTileLoadPriority_def exampleHeap_6 exampleFrame_def blankTile_def
        new_GlobeSurfaceTile_def Let_def)

section \<open>Back-references to renderable tiles\<close>

lemma showTileThisFrame_defer:
  assumes "showTileThisFrame tileProvider h tile (Some nearest) = Inr (tileProvider', h')"
      and "nearest \<noteq> tile"
  shows "renderableRef h' tile = Some nearest" and "renderableRef h' nearest = None"
    and "\<forall>a. a \<noteq> tile \<and> a \<noteq> nearest \<longrightarrow> renderableRef h' a = renderableRef h a"
  using assms
  by (auto simp: showTileThisFrame_def renderableRef_def Let_def split: option.splits if_splits)

lemma showTileThisFrame_self:
  assumes "showTileThisFrame tileProvider h tile nearestRenderableTile = Inr (tileProvider', h')"
      and "nearestRenderableTile = None \<or> nearestRenderableTile = Some tile"
  shows "renderableRef h' tile = None"
    and "\<forall>a. a \<noteq> tile \<longrightarrow> renderableRef h' a = renderableRef h a"
  using assms
  by (auto simp: showTileThisFrame_def renderableRef_def Let_def split: option.splits if_splits)

lemma showTileThisFrame_acyclic:
  assumes "showTileThisFrame tileProvider h tile nearestRenderableTile = Inr (tileProvider', h')"
      and "acyclic (renderableRefs h)"
  shows "acyclic (renderableRefs h')"
proof (cases "nearestRenderableTile = None \<or> nearestRenderableTile = Some tile")
  case True
  from showTileThisFrame_self [OF assms(1) True]
  have "renderableRefs h' \<subseteq> renderableRefs h"
    by (auto simp: renderableRefs_def) (metis option.distinct(1))
  with assms(2) show ?thesis by (rule acyclic_subset)
next
  case False
  then obtain nearest where n: "nearestRenderableTile = Some nearest" and ne: "nearest \<noteq> tile"
    by auto
  note d = showTileThisFrame_defer [OF assms(1) [unfolded n] ne]
  let ?r0 = "{(a, b). (a, b) \<in> renderableRefs h \<and> a \<noteq> tile \<and> a \<noteq> nearest}"
  have eq: "renderableRefs h' = insert (tile, nearest) ?r0"
  proof (rule set_eqI, clarify)
    fix a b
    show "(a, b) \<in> renderableRefs h' \<longleftrightarrow> (a, b) \<in> insert (tile, nearest) ?r0"
      using d ne by (cases "a = tile"; cases "a = nearest") (auto simp: renderableRefs_def)
  qed
  have "acyclic ?r0"
    by (rule acyclic_subset [OF assms(2)]) auto
  moreover have "(nearest, tile) \<notin> ?r0\<^sup>*"
  proof
    assume "(nearest, tile) \<in> ?r0\<^sup>*"
    then show False
      using ne by (cases rule: converse_rtranclE) auto
  qed
  ultimately show ?thesis
    unfolding eq by (simp add: acyclic_insert)
qed

lemma showTiles_acyclic:
  "showTiles tileProvider h calls = Inr (tileProvider', h') \<Longrightarrow> acyclic (renderableRefs h) \<Longrightarrow>
   acyclic (renderableRefs h')"
proof (induction calls arbitrary: tileProvider h)
  case Nil
  then show ?case by simp
next
  case (Cons call calls)
  obtain tile nearestRenderableTile where call: "call = (tile, nearestRenderableTile)"
    by (cases call)
  from Cons.prems(1) obtain tileProvider1 h1 where
    step: "showTileThisFrame tileProvider h tile nearestRenderableTile = Inr (tileProvider1, h1)" and
    rest: "showTiles tileProvider1 h1 calls = Inr (tileProvider', h')"
    by (auto simp: call split: sum.splits)
  from showTileThisFrame_acyclic [OF step Cons.prems(2)] rest show ?case
    by (rule Cons.IH [rotated])
qed

text \<open>
  C6 (as amended). When \<open>showTileThisFrame\<close> sets a tile's back-reference to another tile
  \<open>nearest\<close>, the back-reference of \<open>nearest\<close> is unset in the same call; and the
  back-references of a store never come to form a cycle through any sequence of calls.
\<close>

theorem showTileThisFrame_back_references:
  "(showTileThisFrame tileProvider h tile (Some nearest) = Inr (tileProvider1, h1) \<and> nearest \<noteq> tile \<longrightarrow>
      renderableRef h1 tile = Some nearest \<and> renderableRef h1 nearest = None) \<and>
   (showTiles tileProvider h calls = Inr (tileProvider', h') \<and> acyclic (renderableRefs h) \<longrightarrow>
      acyclic (renderableRefs h'))"
  using showTileThisFrame_defer(1,2) showTiles_acyclic by blast

lemma loadedHeap_refs: "renderableRefs loadedHeap = {}"
  by (simp add: renderableRefs_def renderableRef_def loadedHeap_def blankTile_def new_GlobeSurfaceTile_def)

lemma loadedHeap_show:
  "\<exists>tileProvider1 h1. showTileThisFrame exampleProvider loadedHeap 2 (Some 3) = Inr (tileProvider1, h1)"
  by (simp add: showTileThisFrame_def loadedHeap_def blankTile_def Let_def)

lemma loadedHeap_showTiles:
  "\<exists>tileProvider' h'. showTiles exampleProvider loadedHeap [(2, Some 3), (3, Some 4)] = Inr (tileProvider', h')"
  by (simp add: showTileThisFrame_def loadedHeap_def blankTile_def Let_def)

text \<open>
  In a store where every tile has surface data and no back-reference: tile 2 deferring to
  tile 3, and that call followed by tile 3 deferring to tile 4.
\<close>

theorem showTileThisFrame_back_references_witness:
  "(\<exists>tileProvider1 h1.
      showTileThisFrame exampleProvider loadedHeap 2 (Some 3) = Inr (tileProvider1, h1) \<and>
      renderableRef h1 2 = Some 3 \<and> renderableRef h1 3 = None) \<and>
   (\<exists>tileProvider' h'.
      showTiles exampleProvider loadedHeap [(2, Some 3), (3, Some 4)] = Inr (tileProvider', h') \<and>
      acyclic (renderableRefs loadedHeap) \<and> acyclic (renderableRefs h'))"
proof -
  from loadedHeap_show obtain tileProvider1 h1 where
    s: "showTileThisFrame exampleProvider loadedHeap 2 (Some 3) = Inr (tileProvider1, h1)" by blast
  from loadedHeap_showTiles obtain tileProvider' h' where
    t: "showTiles exampleProvider loadedHeap [(2, Some 3), (3, Some 4)] = Inr (tileProvider', h')" by blast
  have a: "acyclic (renderableRefs loadedHeap)"
    by (simp add: loadedHeap_refs acyclic_def)
  have n: "(3::nat) \<noteq> 2" by simp
  from showTileThisFrame_back_references [of exampleProvider loadedHeap 2 3 tileProvider1 h1
      "[(2, Some 3), (3, Some 4)]" tileProvider' h'] s t a n
  show ?thesis by simp
qed

text \<open>
  After these two calls tile 2 still refers to tile 3 while tile 3 refers to tile 4: a chain
  of two hops. The second call does not touch tile 2, which is not shown again.
\<close>

theorem showTiles_two_hop_chain:
  "refsAfter (showTiles exampleProvider loadedHeap [(2, Some 3), (3, Some 4)]) [2, 3, 4] =
     Some [Some 3, Some 4, None]"
  by (simp add: refsAfter_def showTileThisFrame_def renderableRef_def loadedHeap_def blankTile_def
        new_GlobeSurfaceTile_def Let_def)

section \<open>Draw command assembly\<close>

declare dayTextureLoop.simps [simp del]

lemma packedTexture_counted:
  "packedTexture tileImagery = Some texture \<Longrightarrow> counted tileImagery"
  by (auto simp: packedTexture_def counted_def split: option.splits if_splits)

lemma packedTexture_uncounted:
  "\<not> counted tileImagery \<Longrightarrow> packedTexture tileImagery = None"
  by (auto simp: packedTexture_def counted_def split: option.splits)

lemma readyTextures_Cons:
  "readyTextures (tileImagery # rest) =
     (case packedTexture tileImagery of None \<Rightarrow> readyTextures rest | Some texture \<Rightarrow> texture # readyTextures rest)"
  by (simp add: readyTextures_def split: option.splits)

lemma readyTextures_Nil [simp]: "readyTextures [] = []"
  by (simp add: readyTextures_def)

lemma length_readyTextures:
  "\<forall>tileImagery \<in> set collection. counted tileImagery \<longrightarrow> packedTexture tileImagery \<noteq> None \<Longrightarrow>
   length (readyTextures collection) = length (filter counted collection)"
  by (induction collection)
     (auto simp: readyTextures_Cons packedTexture_uncounted split: option.splits
           dest: packedTexture_counted)

text \<open>
  One pass of the inner loop when every counted entry from \<open>imageryIndex\<close> on has its
  selected texture: it appends the next textures, as many as the free slots allow.
\<close>

lemma dayTextureLoop_packs:
  assumes "\<forall>tileImagery \<in> set (drop imageryIndex collection).
             counted tileImagery \<longrightarrow> packedTexture tileImagery \<noteq> None"
      and "imageryIndex \<le> length collection"
  shows "\<exists>imageryIndex'.
           dayTextureLoop maxTextures collection textures n imageryIndex =
             Inr (textures @ take (nat (maxTextures - int n)) (readyTextures (drop imageryIndex collection)),
                  n + min (nat (maxTextures - int n)) (length (readyTextures (drop imageryIndex collection))),
                  imageryIndex') \<and>
           imageryIndex \<le> imageryIndex' \<and> imageryIndex' \<le> length collection \<and>
           readyTextures (drop imageryIndex' collection) =
             drop (nat (maxTextures - int n)) (readyTextures (drop imageryIndex collection)) \<and>
           (length (readyTextures (drop imageryIndex collection)) < nat (maxTextures - int n) \<longrightarrow>
              imageryIndex' = length collection) \<and>
           (int n < maxTextures \<and> imageryIndex < length collection \<longrightarrow> imageryIndex < imageryIndex')"
  using assms
proof (induction maxTextures collection textures n imageryIndex rule: dayTextureLoop.induct)
  case (1 maxTextures collection textures n imageryIndex)
  show ?case
  proof (cases "int n < maxTextures \<and> imageryIndex < length collection")
    case False
    then have stop: "dayTextureLoop maxTextures collection textures n imageryIndex = Inr (textures, n, imageryIndex)"
      by (subst dayTextureLoop.simps) (simp only: if_False)
    from False "1.prems"(2) have "nat (maxTextures - int n) = 0 \<or> drop imageryIndex collection = []"
      by auto
    then show ?thesis
      using stop "1.prems"(2) False by auto
  next
    case True
    then have lt: "imageryIndex < length collection" and free: "int n < maxTextures" by simp_all
    let ?ti = "collection ! imageryIndex"
    have dr: "drop imageryIndex collection = ?ti # drop (imageryIndex + 1) collection"
      using lt by (simp add: Cons_nth_drop_Suc)
    have rest: "\<forall>tileImagery \<in> set (drop (imageryIndex + 1) collection).
             counted tileImagery \<longrightarrow> packedTexture tileImagery \<noteq> None"
      using "1.prems"(1) unfolding dr by simp
    have le: "imageryIndex + 1 \<le> length collection" using lt by simp
    show ?thesis
    proof (cases "packedTexture ?ti")
      case None
      then have nc: "\<not> counted ?ti"
        using "1.prems"(1) unfolding dr by auto
      have R: "readyTextures (drop imageryIndex collection) = readyTextures (drop (imageryIndex + 1) collection)"
        unfolding dr by (simp add: readyTextures_Cons None)
      show ?thesis
      proof (cases "readyImagery ?ti")
        case None
        have step: "dayTextureLoop maxTextures collection textures n imageryIndex =
            dayTextureLoop maxTextures collection textures n (imageryIndex + 1)"
          using True None by (subst dayTextureLoop.simps) simp
        from "1.IH"(1) [OF True refl None rest le] show ?thesis
          unfolding step R by (auto simp: Let_def)
      next
        case (Some ready)
        with nc have a0: "js_eq (alpha (imageryLayer ready)) (Num 0)"
          by (simp add: counted_def)
        have step: "dayTextureLoop maxTextures collection textures n imageryIndex =
            dayTextureLoop maxTextures collection textures n (imageryIndex + 1)"
          using True Some a0 by (subst dayTextureLoop.simps) simp
        from "1.IH"(2) [OF True refl Some a0 rest le] show ?thesis
          unfolding step R by (auto simp: Let_def)
      qed
    next
      case (Some texture)
      then obtain ready where ready: "readyImagery ?ti = Some ready"
        and a: "\<not> js_eq (alpha (imageryLayer ready)) (Num 0)"
        and sel: "selectedTexture ?ti ready = Some texture"
        by (auto simp: packedTexture_def split: option.splits if_splits)
      have R: "readyTextures (drop imageryIndex collection) =
                 texture # readyTextures (drop (imageryIndex + 1) collection)"
        unfolding dr by (simp add: readyTextures_Cons Some)
      have step: "dayTextureLoop maxTextures collection textures n imageryIndex =
          dayTextureLoop maxTextures collection (textures @ [texture]) (n + 1) (imageryIndex + 1)"
        using True ready a sel by (subst dayTextureLoop.simps) simp
      have k: "nat (maxTextures - int n) = Suc (nat (maxTextures - int (n + 1)))"
        using free by simp
      from "1.IH"(3) [OF True refl ready a sel rest le] show ?thesis
        unfolding step R k by (auto simp: Let_def)
    qed
  qed
qed

lemma provider_blendRenderState_claimCommand [simp]:
  "provider_blendRenderState (claimCommand tileProvider command) = provider_blendRenderState tileProvider"
  by (simp add: claimCommand_def Let_def)

lemma usedDrawCommands_claimCommand [simp]:
  "usedDrawCommands (claimCommand tileProvider command) = usedDrawCommands tileProvider + 1"
  by (simp add: claimCommand_def Let_def)

text \<open>One pass of the outer loop, under the same condition on the entries.\<close>

lemma commandLoop_pass:
  assumes "\<forall>tileImagery \<in> set (drop imageryIndex collection).
             counted tileImagery \<longrightarrow> packedTexture tileImagery \<noteq> None"
      and "imageryIndex \<le> length collection"
      and "maxTextures = int k"
      and "command = \<lparr>owner = tile, renderState = passRenderState, initialColor = passInitialColor,
                      dayTextures = take k (readyTextures (drop imageryIndex collection))\<rparr>"
      and "mode frameState = SCENE3D \<or> tileBoundingRegion surfaceTile \<noteq> None"
  shows "\<exists>imageryIndex'.
           commandLoop imageryIndex passRenderState passInitialColor tileProvider frameState tile
               surfaceTile maxTextures collection =
             (if imageryIndex' < length collection then
                commandLoop imageryIndex' (provider_blendRenderState tileProvider) otherPassesInitialColor
                  (claimCommand tileProvider command)
                  (frameState\<lparr>commandList := commandList frameState @ [command]\<rparr>)
                  tile surfaceTile maxTextures collection
              else
                Some (Inr (claimCommand tileProvider command,
                           frameState\<lparr>commandList := commandList frameState @ [command]\<rparr>))) \<and>
           imageryIndex \<le> imageryIndex' \<and> imageryIndex' \<le> length collection \<and>
           readyTextures (drop imageryIndex' collection) =
             drop k (readyTextures (drop imageryIndex collection)) \<and>
           (length (readyTextures (drop imageryIndex collection)) < k \<longrightarrow>
              imageryIndex' = length collection) \<and>
           (0 < k \<and> imageryIndex < length collection \<longrightarrow> imageryIndex < imageryIndex')"
proof -
  from dayTextureLoop_packs [OF assms(1,2), of maxTextures "[]" 0]
  obtain imageryIndex' where
    inner: "dayTextureLoop maxTextures collection [] 0 imageryIndex =
             Inr (take k (readyTextures (drop imageryIndex collection)),
                  min k (length (readyTextures (drop imageryIndex collection))),
                  imageryIndex')" and
    rest: "imageryIndex \<le> imageryIndex'" "imageryIndex' \<le> length collection"
      "readyTextures (drop imageryIndex' collection) =
             drop k (readyTextures (drop imageryIndex collection))"
      "length (readyTextures (drop imageryIndex collection)) < k \<longrightarrow>
              imageryIndex' = length collection"
      "0 < k \<and> imageryIndex < length collection \<longrightarrow> imageryIndex < imageryIndex'"
    unfolding assms(3) by auto
  have t: "take (min k (length (readyTextures (drop imageryIndex collection))))
             (readyTextures (drop imageryIndex collection))
           = take k (readyTextures (drop imageryIndex collection))"
    by (simp add: min_def)
  have readable: "\<not> (mode frameState \<noteq> SCENE3D \<and> tileBoundingRegion surfaceTile = None)"
    using assms(5) by blast
  have "commandLoop imageryIndex passRenderState passInitialColor tileProvider frameState tile
               surfaceTile maxTextures collection =
             (if imageryIndex' < length collection then
                commandLoop imageryIndex' (provider_blendRenderState tileProvider) otherPassesInitialColor
                  (claimCommand tileProvider command)
                  (frameState\<lparr>commandList := commandList frameState @ [command]\<rparr>)
                  tile surfaceTile maxTextures collection
              else
                Some (Inr (claimCommand tileProvider command,
                           frameState\<lparr>commandList := commandList frameState @ [command]\<rparr>)))"
    by (subst commandLoop.simps) (simp add: inner t Let_def assms(4) readable)
  with rest show ?thesis by blast
qed

lemma addDrawCommandsForTile_own_mesh:
  assumes "data (h tile) = Some surfaceTile"
      and "renderableTile surfaceTile = None"
      and "drawnMesh surfaceTile = Some meshToDraw"
  shows "addDrawCommandsForTile tile ext tileProvider h frameState =
           (case commandLoop 0 (provider_renderState tileProvider) (firstPassInitialColor tileProvider)
                   tileProvider frameState tile surfaceTile (effectiveMaxTextures ext tileProvider surfaceTile)
                   (imagery surfaceTile) of
              None \<Rightarrow> None
            | Some (Inl e) \<Rightarrow> Some (Inl e)
            | Some (Inr (tileProvider', frameState')) \<Rightarrow> Some (Inr (tileProvider', h, frameState')))"
  using assms by (subst addDrawCommandsForTile.simps) simp

lemma effectiveMaxTextures_endUpdate [simp]:
  "effectiveMaxTextures ext (endUpdate_renderStates tileProvider) surfaceTile =
     effectiveMaxTextures ext tileProvider surfaceTile"
  by (simp add: effectiveMaxTextures_def endUpdate_renderStates_def)

lemma set_drop_counted:
  "\<forall>tileImagery \<in> set collection. counted tileImagery \<longrightarrow> packedTexture tileImagery \<noteq> None \<Longrightarrow>
   \<forall>tileImagery \<in> set (drop i collection). counted tileImagery \<longrightarrow> packedTexture tileImagery \<noteq> None"
  by (meson in_set_dropD)

lemma readyTextures_nonempty_index:
  "readyTextures (drop i collection) \<noteq> [] \<Longrightarrow> i < length collection"
  by (cases "i < length collection") simp_all

text \<open>
  C5. A tile that draws its own mesh and, outside 3D mode, has its bounding region, with
  exactly nine counted imagery entries, each with its selected texture, and an effective
  budget of four textures: the call appends exactly three commands with the first four,
  the next four and the last of the nine textures. The first command has the provider's
  first render state, which \<open>endUpdate\<close> created opaque (depth test \<open>LESS\<close>, no
  blending), and the provider's configured colour as initial colour; the other two have
  the blended render state and the transparent initial colour.
\<close>

theorem addDrawCommandsForTile_nine_layers:
  assumes "data (h tile) = Some surfaceTile"
      and "renderableTile surfaceTile = None"
      and "drawnMesh surfaceTile = Some meshToDraw"
      and "provider_renderState tileProvider0 = None"
      and "effectiveMaxTextures ext tileProvider0 surfaceTile = 4"
      and "length (filter counted (imagery surfaceTile)) = 9"
      and "\<forall>tileImagery \<in> set (imagery surfaceTile).
             counted tileImagery \<longrightarrow> packedTexture tileImagery \<noteq> None"
      and "mode frameState = SCENE3D \<or> tileBoundingRegion surfaceTile \<noteq> None"
  shows "\<exists>tileProvider' frameState'.
      addDrawCommandsForTile tile ext (endUpdate_renderStates tileProvider0) h frameState =
        Some (Inr (tileProvider', h, frameState')) \<and>
      commandList frameState' = commandList frameState @
        [\<lparr>owner = tile,
          renderState = Some \<lparr>cull_enabled = True, depthTest_enabled = True, depthTest_func = LESS,
                              blending = None\<rparr>,
          initialColor = firstPassInitialColor tileProvider0,
          dayTextures = take 4 (readyTextures (imagery surfaceTile))\<rparr>,
         \<lparr>owner = tile,
          renderState = Some \<lparr>cull_enabled = True, depthTest_enabled = True, depthTest_func = LESS_OR_EQUAL,
                              blending = Some ALPHA_BLEND\<rparr>,
          initialColor = (Num 0, Num 0, Num 0, Num 0),
          dayTextures = take 4 (drop 4 (readyTextures (imagery surfaceTile)))\<rparr>,
         \<lparr>owner = tile,
          renderState = Some \<lparr>cull_enabled = True, depthTest_enabled = True, depthTest_func = LESS_OR_EQUAL,
                              blending = Some ALPHA_BLEND\<rparr>,
          initialColor = (Num 0, Num 0, Num 0, Num 0),
          dayTextures = drop 8 (readyTextures (imagery surfaceTile))\<rparr>] \<and>
      length (take 4 (readyTextures (imagery surfaceTile))) = 4 \<and>
      length (take 4 (drop 4 (readyTextures (imagery surfaceTile)))) = 4 \<and>
      length (drop 8 (readyTextures (imagery surfaceTile))) = 1 \<and>
      usedDrawCommands tileProvider' = usedDrawCommands tileProvider0 + 3"
proof -
  let ?coll = "imagery surfaceTile"
  let ?R = "readyTextures ?coll"
  let ?tp = "endUpdate_renderStates tileProvider0"
  let ?opaque = "Some \<lparr>cull_enabled = True, depthTest_enabled = True, depthTest_func = LESS, blending = None\<rparr>"
  let ?blend = "Some \<lparr>cull_enabled = True, depthTest_enabled = True, depthTest_func = LESS_OR_EQUAL,
                              blending = Some ALPHA_BLEND\<rparr>"
  have rs: "provider_renderState ?tp = ?opaque" "provider_blendRenderState ?tp = ?blend"
    "firstPassInitialColor ?tp = firstPassInitialColor tileProvider0"
    "usedDrawCommands ?tp = usedDrawCommands tileProvider0"
    using assms(4) by (simp_all add: endUpdate_renderStates_def)
  have lenR: "length ?R = 9"
    using length_readyTextures [OF assms(7)] assms(6) by simp
  have H: "\<forall>tileImagery \<in> set (drop i ?coll). counted tileImagery \<longrightarrow> packedTexture tileImagery \<noteq> None" for i
    using assms(7) by (rule set_drop_counted)
  have k: "(4::int) = int 4" by simp
  define c1 where "c1 = \<lparr>owner = tile, renderState = ?opaque, initialColor = firstPassInitialColor tileProvider0,
              dayTextures = take 4 ?R\<rparr>"
  define c2 where "c2 = \<lparr>owner = tile, renderState = ?blend, initialColor = otherPassesInitialColor,
              dayTextures = take 4 (drop 4 ?R)\<rparr>"
  define c3 where "c3 = \<lparr>owner = tile, renderState = ?blend, initialColor = otherPassesInitialColor,
              dayTextures = drop 8 ?R\<rparr>"
  define fs1 where "fs1 = frameState\<lparr>commandList := commandList frameState @ [c1]\<rparr>"
  define fs2 where "fs2 = fs1\<lparr>commandList := commandList fs1 @ [c2]\<rparr>"
  define fs3 where "fs3 = fs2\<lparr>commandList := commandList fs2 @ [c3]\<rparr>"
  define tp1 where "tp1 = claimCommand ?tp c1"
  define tp2 where "tp2 = claimCommand tp1 c2"
  define tp3 where "tp3 = claimCommand tp2 c3"
  have m1: "mode fs1 = SCENE3D \<or> tileBoundingRegion surfaceTile \<noteq> None"
    using assms(8) by (simp add: fs1_def)
  have m2: "mode fs2 = SCENE3D \<or> tileBoundingRegion surfaceTile \<noteq> None"
    using assms(8) by (simp add: fs2_def fs1_def)
  have b1: "provider_blendRenderState tp1 = ?blend" by (simp add: tp1_def rs)
  have b2: "provider_blendRenderState tp2 = ?blend" by (simp add: tp2_def b1)
  have e1: "c1 = \<lparr>owner = tile, renderState = ?opaque, initialColor = firstPassInitialColor tileProvider0,
              dayTextures = take 4 (readyTextures (drop 0 ?coll))\<rparr>"
    by (simp add: c1_def)
  have le0: "0 \<le> length ?coll" by simp
  from commandLoop_pass [OF H le0 k e1 assms(8), where tileProvider = ?tp]
  obtain i1 where
    p1: "commandLoop 0 ?opaque (firstPassInitialColor tileProvider0) ?tp frameState tile surfaceTile 4 ?coll =
           (if i1 < length ?coll then commandLoop i1 ?blend otherPassesInitialColor tp1 fs1 tile surfaceTile 4 ?coll
            else Some (Inr (tp1, fs1)))" and
    i1: "i1 \<le> length ?coll" and r1: "readyTextures (drop i1 ?coll) = drop 4 ?R"
    unfolding rs tp1_def [symmetric] fs1_def [symmetric] by auto
  have "readyTextures (drop i1 ?coll) \<noteq> []" using r1 lenR by auto
  then have n1: "i1 < length ?coll" by (rule readyTextures_nonempty_index)
  have e2: "c2 = \<lparr>owner = tile, renderState = ?blend, initialColor = otherPassesInitialColor,
              dayTextures = take 4 (readyTextures (drop i1 ?coll))\<rparr>"
    by (simp add: c2_def r1)
  from commandLoop_pass [OF H i1 k e2 m1, where tileProvider = tp1]
  obtain i2 where
    p2: "commandLoop i1 ?blend otherPassesInitialColor tp1 fs1 tile surfaceTile 4 ?coll =
           (if i2 < length ?coll then commandLoop i2 ?blend otherPassesInitialColor tp2 fs2 tile surfaceTile 4 ?coll
            else Some (Inr (tp2, fs2)))" and
    i2: "i2 \<le> length ?coll" and r2: "readyTextures (drop i2 ?coll) = drop 4 (drop 4 ?R)"
    unfolding b1 r1 tp2_def [symmetric] fs2_def [symmetric] by auto
  have "readyTextures (drop i2 ?coll) \<noteq> []" using r2 lenR by auto
  then have n2: "i2 < length ?coll" by (rule readyTextures_nonempty_index)
  have e3: "c3 = \<lparr>owner = tile, renderState = ?blend, initialColor = otherPassesInitialColor,
              dayTextures = take 4 (readyTextures (drop i2 ?coll))\<rparr>"
    using lenR by (simp add: c3_def r2)
  have l3: "length (readyTextures (drop i2 ?coll)) < 4" using lenR by (simp add: r2)
  from commandLoop_pass [OF H i2 k e3 m2, where tileProvider = tp2]
  obtain i3 where
    p3: "commandLoop i2 ?blend otherPassesInitialColor tp2 fs2 tile surfaceTile 4 ?coll =
           (if i3 < length ?coll then commandLoop i3 ?blend otherPassesInitialColor tp3 fs3 tile surfaceTile 4 ?coll
            else Some (Inr (tp3, fs3)))" and
    e: "length (readyTextures (drop i2 ?coll)) < 4 \<longrightarrow> i3 = length ?coll"
    unfolding b2 tp3_def [symmetric] fs3_def [symmetric] by auto
  from e l3 have "i3 = length ?coll" by simp
  with p1 n1 p2 n2 p3 have
    "commandLoop 0 ?opaque (firstPassInitialColor tileProvider0) ?tp frameState tile surfaceTile 4 ?coll =
       Some (Inr (tp3, fs3))"
    by simp
  then have "addDrawCommandsForTile tile ext ?tp h frameState = Some (Inr (tp3, h, fs3))"
    by (simp add: addDrawCommandsForTile_own_mesh [where h = h and tile = tile, OF assms(1,2,3)] rs assms(5))
  moreover have "commandList fs3 = commandList frameState @ [c1, c2, c3]"
    by (simp add: fs3_def fs2_def fs1_def)
  moreover have "usedDrawCommands tp3 = usedDrawCommands tileProvider0 + 3"
    by (simp add: tp3_def tp2_def tp1_def rs)
  ultimately show ?thesis
    using lenR by (simp add: c1_def c2_def c3_def otherPassesInitialColor_def)
qed

lemma nineLayers_ready: "readyTextures nineLayers = [11, 12, 13, 14, 15, 16, 17, 18, 19]"
  by (simp add: nineLayers_def readyTextures_def packedTexture_def selectedTexture_def
        readyEntry_def loadingEntry_def)

lemma nineLayers_counted: "length (filter counted nineLayers) = 9"
  by (simp add: nineLayers_def counted_def readyEntry_def loadingEntry_def)

lemma nineLayers_textures:
  "\<forall>tileImagery \<in> set nineLayers. counted tileImagery \<longrightarrow> packedTexture tileImagery \<noteq> None"
  by (simp add: nineLayers_def counted_def packedTexture_def selectedTexture_def
        readyEntry_def loadingEntry_def)

text \<open>
  A tile with nine ready layers, and two entries still loading among them, drawn with the
  device limit of four textures and no ocean: three commands.
\<close>

theorem addDrawCommandsForTile_nine_layers_witness:
  "texturesDrawn (addDrawCommandsForTile 7 exampleExternals (endUpdate_renderStates freshProvider)
      (loadedHeap(7 := drawTile nineLayers)) exampleFrame) =
     Some [[11, 12, 13, 14], [15, 16, 17, 18], [19]]"
proof -
  let ?st = "new_GlobeSurfaceTile\<lparr>
       mesh := Some \<lparr>mesh_minimumHeight = Some (Num 0), mesh_maximumHeight = Some (Num 1),
                     mesh_boundingSphere3D = \<lparr>sphere_center = (Num 0, Num 0, Num 0), sphere_radius = Num 1\<rparr>\<rparr>,
       vertexArray := Some 0,
       imagery := nineLayers\<rparr>"
  let ?m = "\<lparr>mesh_minimumHeight = Some (Num 0), mesh_maximumHeight = Some (Num 1),
                     mesh_boundingSphere3D = \<lparr>sphere_center = (Num 0, Num 0, Num 0), sphere_radius = Num 1\<rparr>\<rparr>"
  have 1: "data ((loadedHeap(7 := drawTile nineLayers)) 7) = Some ?st"
    by (simp add: drawTile_def blankTile_def)
  have 2: "renderableTile ?st = None" by (simp add: new_GlobeSurfaceTile_def)
  have 3: "drawnMesh ?st = Some ?m" by (simp add: drawnMesh_def new_GlobeSurfaceTile_def)
  have 4: "provider_renderState freshProvider = None" by (simp add: freshProvider_def)
  have 5: "effectiveMaxTextures exampleExternals freshProvider ?st = 4"
    by (simp add: effectiveMaxTextures_def exampleExternals_def freshProvider_def)
  have 6: "length (filter counted (imagery ?st)) = 9" by (simp add: nineLayers_counted)
  have 7: "\<forall>tileImagery \<in> set (imagery ?st). counted tileImagery \<longrightarrow> packedTexture tileImagery \<noteq> None"
    using nineLayers_textures by simp
  have 8: "mode exampleFrame = SCENE3D \<or> tileBoundingRegion ?st \<noteq> None"
    by (simp add: exampleFrame_def)
  from addDrawCommandsForTile_nine_layers [where h = "loadedHeap(7 := drawTile nineLayers)" and tile = 7,
      OF 1 2 3 4 5 6 7 8]
  obtain tileProvider' frameState' where
    "addDrawCommandsForTile 7 exampleExternals (endUpdate_renderStates freshProvider)
       (loadedHeap(7 := drawTile nineLayers)) exampleFrame =
         Some (Inr (tileProvider', loadedHeap(7 := drawTile nineLayers), frameState'))"
    "map dayTextures (commandList frameState') = [[11, 12, 13, 14], [15, 16, 17, 18], [19]]"
    by (auto simp: nineLayers_ready exampleFrame_def)
  then show ?thesis by (simp add: texturesDrawn_def)
qed

text \<open>
  The inner loop when some counted entry from \<open>imageryIndex\<close> on lacks its texture: it
  raises, or stops for lack of free slots with such an entry still ahead.
\<close>

lemma missingAhead_index: "missingAhead collection i \<Longrightarrow> i < length collection"
  by (cases "i < length collection") (auto simp: missingAhead_def)

lemma missingAhead_step:
  "missingAhead collection i \<Longrightarrow>
   \<not> (counted (collection ! i) \<and> packedTexture (collection ! i) = None) \<Longrightarrow>
   missingAhead collection (i + 1)"
proof -
  assume m: "missingAhead collection i"
    and ok: "\<not> (counted (collection ! i) \<and> packedTexture (collection ! i) = None)"
  from m have "i < length collection" by (rule missingAhead_index)
  then have "drop i collection = collection ! i # drop (i + 1) collection"
    by (simp add: Cons_nth_drop_Suc)
  with m ok show ?thesis by (auto simp: missingAhead_def)
qed

lemma dayTextureLoop_missing:
  assumes "missingAhead collection imageryIndex"
  shows "dayTextureLoop maxTextures collection textures n imageryIndex = Inl DeveloperError \<or>
         (\<exists>textures' n' imageryIndex'.
            dayTextureLoop maxTextures collection textures n imageryIndex = Inr (textures', n', imageryIndex') \<and>
            missingAhead collection imageryIndex' \<and>
            imageryIndex \<le> imageryIndex' \<and>
            (int n < maxTextures \<longrightarrow> imageryIndex < imageryIndex'))"
  using assms
proof (induction maxTextures collection textures n imageryIndex rule: dayTextureLoop.induct)
  case (1 maxTextures collection textures n imageryIndex)
  from "1.prems" have lt: "imageryIndex < length collection"
    by (rule missingAhead_index)
  show ?case
  proof (cases "int n < maxTextures")
    case False
    then have "dayTextureLoop maxTextures collection textures n imageryIndex = Inr (textures, n, imageryIndex)"
      by (subst dayTextureLoop.simps) simp
    with "1.prems" False show ?thesis by simp
  next
    case True
    with lt have go: "int n < maxTextures \<and> imageryIndex < length collection" by simp
    let ?ti = "collection ! imageryIndex"
    show ?thesis
    proof (cases "readyImagery ?ti")
      case None
      then have "\<not> counted ?ti" by (simp add: counted_def)
      with "1.prems" have rest: "missingAhead collection (imageryIndex + 1)"
        by (intro missingAhead_step) simp_all
      have step: "dayTextureLoop maxTextures collection textures n imageryIndex =
          dayTextureLoop maxTextures collection textures n (imageryIndex + 1)"
        using go None by (subst dayTextureLoop.simps) simp
      from "1.IH"(1) [OF go refl None rest] show ?thesis
        unfolding step by auto
    next
      case (Some ready)
      show ?thesis
      proof (cases "js_eq (alpha (imageryLayer ready)) (Num 0)")
        case True
        then have "\<not> counted ?ti" by (simp add: counted_def Some)
        with "1.prems" have rest: "missingAhead collection (imageryIndex + 1)"
          by (intro missingAhead_step) simp_all
        have step: "dayTextureLoop maxTextures collection textures n imageryIndex =
            dayTextureLoop maxTextures collection textures n (imageryIndex + 1)"
          using go Some True by (subst dayTextureLoop.simps) simp
        from "1.IH"(2) [OF go refl Some True rest] show ?thesis
          unfolding step by auto
      next
        case False
        show ?thesis
        proof (cases "selectedTexture ?ti ready")
          case None
          have "dayTextureLoop maxTextures collection textures n imageryIndex = Inl DeveloperError"
            using go Some False None by (subst dayTextureLoop.simps) simp
          then show ?thesis by simp
        next
          case (Some texture)
          then have "packedTexture ?ti \<noteq> None"
            using \<open>readyImagery ?ti = Some ready\<close> False by (simp add: packedTexture_def)
          with "1.prems" have rest: "missingAhead collection (imageryIndex + 1)"
            by (intro missingAhead_step) simp_all
          have step: "dayTextureLoop maxTextures collection textures n imageryIndex =
              dayTextureLoop maxTextures collection (textures @ [texture]) (n + 1) (imageryIndex + 1)"
            using go \<open>readyImagery ?ti = Some ready\<close> False Some by (subst dayTextureLoop.simps) simp
          from "1.IH"(3) [OF go refl \<open>readyImagery ?ti = Some ready\<close> False Some rest] show ?thesis
            unfolding step by auto
        qed
      qed
    qed
  qed
qed

lemma commandLoop_raises:
  assumes "0 < maxTextures"
      and "missingAhead collection imageryIndex"
      and "mode frameState = SCENE3D \<or> tileBoundingRegion surfaceTile \<noteq> None"
  shows "commandLoop imageryIndex passRenderState passInitialColor tileProvider frameState tile
           surfaceTile maxTextures collection = Some (Inl DeveloperError)"
  using assms(2,3)
proof (induction "length collection - imageryIndex" arbitrary: imageryIndex passRenderState
         passInitialColor tileProvider frameState rule: less_induct)
  case less
  have readable: "\<not> (mode frameState \<noteq> SCENE3D \<and> tileBoundingRegion surfaceTile = None)"
    using less.prems(2) by blast
  from dayTextureLoop_missing [OF less.prems(1), of maxTextures "[]" 0]
  consider
    (raised) "dayTextureLoop maxTextures collection [] 0 imageryIndex = Inl DeveloperError"
  | (full) textures' n' imageryIndex' where
      "dayTextureLoop maxTextures collection [] 0 imageryIndex = Inr (textures', n', imageryIndex')"
      "missingAhead collection imageryIndex'"
      "imageryIndex < imageryIndex'"
    using assms(1) by auto
  then show ?case
  proof cases
    case raised
    then show ?thesis by (subst commandLoop.simps) simp
  next
    case full
    from full(2) have lt: "imageryIndex' < length collection"
      by (rule missingAhead_index)
    with full(3) have smaller: "length collection - imageryIndex' < length collection - imageryIndex"
      by simp
    have later: "commandLoop imageryIndex' passRenderState' passInitialColor' tileProvider'
        (frameState\<lparr>commandList := commands\<rparr>) tile surfaceTile maxTextures collection =
          Some (Inl DeveloperError)"
      for passRenderState' passInitialColor' tileProvider' commands
      using less.prems(2) by (intro less.hyps [OF smaller full(2)]) simp
    show ?thesis
      by (subst commandLoop.simps) (simp add: full(1) lt Let_def readable later)
  qed
qed

lemma commandLoop_completes:
  assumes "0 < maxTextures"
      and "\<forall>tileImagery \<in> set collection. counted tileImagery \<longrightarrow> packedTexture tileImagery \<noteq> None"
      and "imageryIndex \<le> length collection"
      and "mode frameState = SCENE3D \<or> tileBoundingRegion surfaceTile \<noteq> None"
  shows "\<exists>tileProvider' frameState'.
           commandLoop imageryIndex passRenderState passInitialColor tileProvider frameState tile
             surfaceTile maxTextures collection = Some (Inr (tileProvider', frameState'))"
  using assms(3,4)
proof (induction "length collection - imageryIndex" arbitrary: imageryIndex passRenderState
         passInitialColor tileProvider frameState rule: less_induct)
  case less
  have k: "maxTextures = int (nat maxTextures)" and pos: "0 < nat maxTextures"
    using assms(1) by simp_all
  from commandLoop_pass [OF set_drop_counted [OF assms(2)] less.prems(1) k refl less.prems(2),
      where tile = tile and passRenderState = passRenderState and passInitialColor = passInitialColor
        and tileProvider = tileProvider] pos
  obtain imageryIndex' command where
    pass: "commandLoop imageryIndex passRenderState passInitialColor tileProvider frameState tile
               surfaceTile maxTextures collection =
             (if imageryIndex' < length collection then
                commandLoop imageryIndex' (provider_blendRenderState tileProvider) otherPassesInitialColor
                  (claimCommand tileProvider command)
                  (frameState\<lparr>commandList := commandList frameState @ [command]\<rparr>)
                  tile surfaceTile maxTextures collection
              else
                Some (Inr (claimCommand tileProvider command,
                           frameState\<lparr>commandList := commandList frameState @ [command]\<rparr>)))" and
    le: "imageryIndex \<le> imageryIndex'" "imageryIndex' \<le> length collection" and
    progress: "imageryIndex < length collection \<longrightarrow> imageryIndex < imageryIndex'"
    by auto
  show ?case
  proof (cases "imageryIndex' < length collection")
    case False
    with pass show ?thesis by simp
  next
    case True
    with le progress have "length collection - imageryIndex' < length collection - imageryIndex"
      by auto
    moreover have "mode (frameState\<lparr>commandList := commandList frameState @ [command]\<rparr>) = SCENE3D \<or>
        tileBoundingRegion surfaceTile \<noteq> None"
      using less.prems(2) by simp
    ultimately show ?thesis
      using less.hyps [OF _ le(2)] pass True by simp
  qed
qed

text \<open>
  C9. For a tile that draws its own mesh and, outside 3D mode, has its bounding region,
  with a texture budget of at least one: if some imagery entry with a defined
  \<open>readyImagery\<close> and a layer alpha other than 0 has no texture in its selected form, the
  assembly raises \<open>DeveloperError\<close>; and if every such entry has its selected texture,
  the assembly completes without raising.
\<close>

theorem addDrawCommandsForTile_ready_texture:
  assumes "data (h tile) = Some surfaceTile"
      and "renderableTile surfaceTile = None"
      and "drawnMesh surfaceTile = Some meshToDraw"
      and "0 < effectiveMaxTextures ext tileProvider surfaceTile"
      and "mode frameState = SCENE3D \<or> tileBoundingRegion surfaceTile \<noteq> None"
  shows "((\<exists>tileImagery \<in> set (imagery surfaceTile).
             counted tileImagery \<and> packedTexture tileImagery = None) \<longrightarrow>
          addDrawCommandsForTile tile ext tileProvider h frameState = Some (Inl DeveloperError)) \<and>
         ((\<forall>tileImagery \<in> set (imagery surfaceTile).
             counted tileImagery \<longrightarrow> packedTexture tileImagery \<noteq> None) \<longrightarrow>
          (\<exists>tileProvider' frameState'.
             addDrawCommandsForTile tile ext tileProvider h frameState =
               Some (Inr (tileProvider', h, frameState'))))"
proof (intro conjI impI)
  assume "\<exists>tileImagery \<in> set (imagery surfaceTile).
             counted tileImagery \<and> packedTexture tileImagery = None"
  then have "missingAhead (imagery surfaceTile) 0"
    by (simp add: missingAhead_def)
  from commandLoop_raises [OF assms(4) this assms(5)]
  show "addDrawCommandsForTile tile ext tileProvider h frameState = Some (Inl DeveloperError)"
    by (simp add: addDrawCommandsForTile_own_mesh [where h = h and tile = tile, OF assms(1,2,3)])
next
  assume "\<forall>tileImagery \<in> set (imagery surfaceTile).
             counted tileImagery \<longrightarrow> packedTexture tileImagery \<noteq> None"
  from commandLoop_completes [OF assms(4) this _ assms(5), where imageryIndex = 0
      and passRenderState = "provider_renderState tileProvider"
      and passInitialColor = "firstPassInitialColor tileProvider"
      and tileProvider = tileProvider and tile = tile]
  obtain tileProvider' frameState' where
    "commandLoop 0 (provider_renderState tileProvider) (firstPassInitialColor tileProvider)
       tileProvider frameState tile surfaceTile (effectiveMaxTextures ext tileProvider surfaceTile)
       (imagery surfaceTile) = Some (Inr (tileProvider', frameState'))"
    by auto
  then show "\<exists>tileProvider' frameState'.
             addDrawCommandsForTile tile ext tileProvider h frameState =
               Some (Inr (tileProvider', h, frameState'))"
    by (simp add: addDrawCommandsForTile_own_mesh [where h = h and tile = tile, OF assms(1,2,3)])
qed

lemma drawTile_data:
  "data ((loadedHeap(7 := drawTile entries)) 7) =
     Some (new_GlobeSurfaceTile\<lparr>
       mesh := Some \<lparr>mesh_minimumHeight = Some (Num 0), mesh_maximumHeight = Some (Num 1),
                     mesh_boundingSphere3D = \<lparr>sphere_center = (Num 0, Num 0, Num 0), sphere_radius = Num 1\<rparr>\<rparr>,
       vertexArray := Some 0,
       imagery := entries\<rparr>)"
  by (simp add: drawTile_def blankTile_def)

text \<open>
  A tile whose second entry is ready without a texture, and the tile with nine ready
  layers, both drawn with a budget of four.
\<close>

theorem addDrawCommandsForTile_ready_texture_witness:
  "addDrawCommandsForTile 7 exampleExternals exampleProvider
     (loadedHeap(7 := drawTile [readyEntry 11, brokenEntry])) exampleFrame = Some (Inl DeveloperError) \<and>
   (\<exists>tileProvider' frameState'.
      addDrawCommandsForTile 7 exampleExternals exampleProvider
        (loadedHeap(7 := drawTile nineLayers)) exampleFrame =
          Some (Inr (tileProvider', loadedHeap(7 := drawTile nineLayers), frameState')))"
proof -
  let ?m = "\<lparr>mesh_minimumHeight = Some (Num 0), mesh_maximumHeight = Some (Num 1),
                     mesh_boundingSphere3D = \<lparr>sphere_center = (Num 0, Num 0, Num 0), sphere_radius = Num 1\<rparr>\<rparr>"
  let ?st = "\<lambda>entries. new_GlobeSurfaceTile\<lparr>mesh := Some ?m, vertexArray := Some 0, imagery := entries\<rparr>"
  have 2: "renderableTile (?st entries) = None" for entries
    by (simp add: new_GlobeSurfaceTile_def)
  have 3: "drawnMesh (?st entries) = Some ?m" for entries
    by (simp add: drawnMesh_def new_GlobeSurfaceTile_def)
  have 4: "0 < effectiveMaxTextures exampleExternals exampleProvider (?st entries)" for entries
    by (simp add: effectiveMaxTextures_def exampleExternals_def exampleProvider_def freshProvider_def
          endUpdate_renderStates_def)
  have 5: "mode exampleFrame = SCENE3D \<or> tileBoundingRegion (?st entries) \<noteq> None" for entries
    by (simp add: exampleFrame_def)
  have bad: "\<exists>tileImagery \<in> set (imagery (?st [readyEntry 11, brokenEntry])).
               counted tileImagery \<and> packedTexture tileImagery = None"
    by (simp add: counted_def packedTexture_def selectedTexture_def readyEntry_def brokenEntry_def)
  have good: "\<forall>tileImagery \<in> set (imagery (?st nineLayers)).
               counted tileImagery \<longrightarrow> packedTexture tileImagery \<noteq> None"
    using nineLayers_textures by simp
  from addDrawCommandsForTile_ready_texture [where h = "loadedHeap(7 := drawTile [readyEntry 11, brokenEntry])"
      and tile = 7, OF drawTile_data 2 3 4 5] bad
  have a: "addDrawCommandsForTile 7 exampleExternals exampleProvider
     (loadedHeap(7 := drawTile [readyEntry 11, brokenEntry])) exampleFrame = Some (Inl DeveloperError)"
    by blast
  from addDrawCommandsForTile_ready_texture [where h = "loadedHeap(7 := drawTile nineLayers)"
      and tile = 7, OF drawTile_data 2 3 4 5] good
  have b: "\<exists>tileProvider' frameState'.
      addDrawCommandsForTile 7 exampleExternals exampleProvider
        (loadedHeap(7 := drawTile nineLayers)) exampleFrame =
          Some (Inr (tileProvider', loadedHeap(7 := drawTile nineLayers), frameState'))"
    by blast
  from a b show ?thesis by simp
qed

end
